theory Spec2Isabelle
  imports Main "HOL-Library.Sublist" "HOL-Library.Finite_Map"
begin

section \<open>FlukaQueueSub: batch submission of FLUKA jobs\<close>

text \<open>
  The repository holds three scripts, \<^verbatim>\<open>launch_jobs_htcondor.py\<close>,
  \<^verbatim>\<open>launch_jobs_lsf.py\<close> and \<^verbatim>\<open>scripts/launch_jobs_ts.py\<close>. Each one copies an
  input template into \<open>N\<close> fresh job directories, rewrites the \<^verbatim>\<open>RANDOMIZ\<close> line of
  every copy with a random seed and hands the job to a scheduler.

  The scripts work on the file system, on the process working directory, on the
  pseudo-random generator and on external programs. The model threads all of these
  through a \<open>world\<close> record; what the scripts cannot decide themselves (the numbers
  drawn, the exit status of a submission command, the answer of the HTCondor scheduler)
  is read from an \<open>env\<close> record of oracles. Python exceptions are values: every
  operation returns an \<open>outcome\<close>, either \<open>Returned\<close> with a value and the new world
  or \<open>Raised\<close> with the error and the world at the point of the raise.
\<close>

subsection \<open>Python string formatting\<close>

text \<open>Decimal digits of a natural number, most significant first (\<^verbatim>\<open>str(n)\<close>).\<close>

definition digit_char :: "nat \<Rightarrow> char" where
  "digit_char d = ''0123456789'' ! d"

fun str_nat :: "nat \<Rightarrow> string" where
  "str_nat n = (if n < 10 then [digit_char n] else str_nat (n div 10) @ [digit_char (n mod 10)])"

declare str_nat.simps [simp del]

text \<open>\<^verbatim>\<open>str(i)\<close> and the format \<^verbatim>\<open>{i}\<close> of a Python integer.\<close>

definition str_int :: "int \<Rightarrow> string" where
  "str_int i = (if i < 0 then CHR ''-'' # str_nat (nat (- i)) else str_nat (nat i))"

text \<open>
  The format \<^verbatim>\<open>{i:04d}\<close>: at least four characters, padded with zeros between the
  sign and the digits; a longer number is not cut.
\<close>

definition fmt_04d :: "int \<Rightarrow> string" where
  "fmt_04d i =
     (if i < 0 then CHR ''-'' # replicate (3 - length (str_nat (nat (- i)))) CHR ''0'' @ str_nat (nat (- i))
      else replicate (4 - length (str_nat (nat i))) CHR ''0'' @ str_nat (nat i))"

text \<open>
  The format \<^verbatim>\<open>{seed:>10n}\<close>: the number right-aligned in a field of ten characters,
  padded with blanks on the left. The presentation type \<^verbatim>\<open>n\<close> prints like \<^verbatim>\<open>d\<close> in
  the C locale, which is the locale of a Python process that never calls
  \<^verbatim>\<open>setlocale\<close>, as is the case for the three scripts.
\<close>

definition fmt_r10n :: "int \<Rightarrow> string" where
  "fmt_r10n i = replicate (10 - length (str_int i)) CHR '' '' @ str_int i"

subsection \<open>Path names\<close>

text \<open>\<^verbatim>\<open>os.path.basename\<close>: what follows the last slash.\<close>

definition basename :: "string \<Rightarrow> string" where
  "basename p = rev (takeWhile (\<lambda>c. c \<noteq> CHR ''/'') (rev p))"

text \<open>
  \<^verbatim>\<open>os.path.splitext\<close>: the extension starts at the last dot of the last component,
  unless only dots come before it in that component; then there is no extension.
\<close>

definition splitext :: "string \<Rightarrow> string \<times> string" where
  "splitext p =
     (let file = basename p;
          ext = rev (takeWhile (\<lambda>c. c \<noteq> CHR ''.'') (rev file));
          stem = take (length file - length ext - 1) file
      in if CHR ''.'' \<in> set file \<and> list_ex (\<lambda>c. c \<noteq> CHR ''.'') stem
         then (take (length p - length ext - 1) p, CHR ''.'' # ext)
         else (p, []))"

text \<open>\<^verbatim>\<open>os.path.join\<close> of two parts.\<close>

definition path_join :: "string \<Rightarrow> string \<Rightarrow> string" where
  "path_join a b =
     (if b \<noteq> [] \<and> hd b = CHR ''/'' then b
      else if a = [] \<or> last a = CHR ''/'' then a @ b
      else a @ ''/'' @ b)"

text \<open>
  The file system is keyed by absolute paths, each a list of components below the root.
  A path name is cut at its slashes and resolved against the working directory; empty
  components and \<^verbatim>\<open>.\<close> are skipped and \<^verbatim>\<open>..\<close> drops the last component. There are no
  symbolic links in the model, so this lexical resolution is the one of the kernel on
  every path whose components before a \<^verbatim>\<open>..\<close> are directories.
\<close>

type_synonym path = "string list"

fun components :: "string \<Rightarrow> string list" where
  "components [] = [[]]"
| "components (c # cs) =
     (if c = CHR ''/'' then [] # components cs
      else (case components cs of [] \<Rightarrow> [[c]] | x # xs \<Rightarrow> (c # x) # xs))"

fun normpath :: "path \<Rightarrow> string list \<Rightarrow> path" where
  "normpath cur [] = cur"
| "normpath cur (c # cs) =
     (if c = [] \<or> c = ''.'' then normpath cur cs
      else if c = ''..'' then normpath (butlast cur) cs
      else normpath (cur @ [c]) cs)"

text \<open>The empty path name resolves to nothing (\<^verbatim>\<open>ENOENT\<close>).\<close>

definition abspath :: "path \<Rightarrow> string \<Rightarrow> path option" where
  "abspath wd p =
     (if p = [] then None
      else Some (normpath (if hd p = CHR ''/'' then [] else wd) (components p)))"


subsection \<open>The world\<close>

text \<open>
  A node is a directory or a regular file with its text and its permission bits. The
  text of a file is the text Python's text layer reads and writes; bytes, encodings and
  the translation of line ends are below the model.
\<close>

datatype node = Dir | File string nat

type_synonym filesystem = "(path, node) fmap"

text \<open>The root directory always exists.\<close>

definition node_at :: "filesystem \<Rightarrow> path \<Rightarrow> node option" where
  "node_at f p = (if p = [] then Some Dir else fmlookup f p)"

definition is_dir :: "filesystem \<Rightarrow> path \<Rightarrow> bool" where
  "is_dir f p = (node_at f p = Some Dir)"

text \<open>
  A Python value of the two types the submit description holds, and the description
  itself, a dictionary in insertion order.
\<close>

datatype pyval = PyStr string | PyInt int

type_synonym submit_description = "(string \<times> pyval) list"

text \<open>
  What a run does to the outside, in order: lines given to \<^verbatim>\<open>logging.info\<close> (one form
  for a plain message, one for a message that ends with the rendering of a dictionary),
  lines printed, commands given to \<^verbatim>\<open>os.system\<close> and to \<^verbatim>\<open>subprocess.run\<close>, and the two
  calls of the HTCondor bindings.
\<close>

datatype event =
    LogInfo string
  | LogInfoDict string submit_description
  | Print string
  | OsSystem string
  | SubprocessRun string
  | ScheddConnect
  | ScheddSubmit submit_description

record world =
  fs :: filesystem
  cwd :: path
  draws :: nat
  out :: "event list"

datatype error =
    FileNotFoundError string
  | FileExistsError string
  | NotADirectoryError string
  | IsADirectoryError string
  | KeyError string
  | HTCondorError string

datatype 'a outcome = Returned 'a world | Raised error world

text \<open>Sequencing: an exception ends the computation, a value goes to the continuation.\<close>

fun and_then :: "'a outcome \<Rightarrow> ('a \<Rightarrow> world \<Rightarrow> 'b outcome) \<Rightarrow> 'b outcome" where
  "and_then (Returned x w) k = k x w"
| "and_then (Raised e w) k = Raised e w"

fun world_of :: "'a outcome \<Rightarrow> world" where
  "world_of (Returned x w) = w"
| "world_of (Raised e w) = w"

fun returned :: "'a outcome \<Rightarrow> bool" where
  "returned (Returned x w) = True"
| "returned (Raised e w) = False"

text \<open>The result of \<^verbatim>\<open>subprocess.run(..., capture_output=True, text=True)\<close>.\<close>

record completed_process =
  returncode :: int
  stdout :: string
  stderr :: string

text \<open>
  The collaborators. \<open>entropy\<close> is the stream of raw numbers the pseudo-random
  generator turns into its results, one for each draw,
  \<open>new_file_mode\<close> the permission bits of a file the process creates,
  \<open>subprocess_run\<close> what a shell command answers, \<open>schedd_connect\<close> whether
  \<^verbatim>\<open>htcondor.Schedd()\<close> raises (with which message), and \<open>schedd_submit\<close> what
  \<^verbatim>\<open>schedd.submit\<close> does with a description: it raises, or returns a result whose
  \<^verbatim>\<open>cluster()\<close> is the number given. \<open>FLUKA_PATH\<close> is the global of that name, set by
  the main program from \<^verbatim>\<open>fluka-config --bin\<close>.
\<close>

record env =
  FLUKA_PATH :: string
  entropy :: "nat \<Rightarrow> int"
  new_file_mode :: nat
  subprocess_run :: "string \<Rightarrow> completed_process"
  schedd_connect :: "string option"
  schedd_submit :: "submit_description \<Rightarrow> string + int"

subsection \<open>Operating-system calls\<close>

text \<open>\<^verbatim>\<open>os.path.exists\<close>.\<close>

definition path_exists :: "world \<Rightarrow> string \<Rightarrow> bool" where
  "path_exists w name =
     (case abspath (cwd w) name of
        None \<Rightarrow> False
      | Some q \<Rightarrow> node_at (fs w) q \<noteq> None)"

definition is_file :: "filesystem \<Rightarrow> path \<Rightarrow> bool" where
  "is_file f p = (case node_at f p of Some (File t m) \<Rightarrow> True | _ \<Rightarrow> False)"

text \<open>
  \<^verbatim>\<open>os.makedirs(name)\<close>: the leaf must be new and no ancestor may be a regular file;
  the missing ancestors are created on the way.
\<close>

definition os_makedirs :: "string \<Rightarrow> world \<Rightarrow> unit outcome" where
  "os_makedirs name w =
     (case abspath (cwd w) name of
        None \<Rightarrow> Raised (FileNotFoundError name) w
      | Some q \<Rightarrow>
          if node_at (fs w) q \<noteq> None then Raised (FileExistsError name) w
          else if list_ex (is_file (fs w)) (prefixes q) then Raised (NotADirectoryError name) w
          else Returned ()
                 (w\<lparr>fs := fold (\<lambda>a f. if node_at f a = None then fmupd a Dir f else f)
                              (prefixes q) (fs w)\<rparr>))"

text \<open>\<^verbatim>\<open>os.chdir(name)\<close>.\<close>

definition os_chdir :: "string \<Rightarrow> world \<Rightarrow> unit outcome" where
  "os_chdir name w =
     (case abspath (cwd w) name of
        None \<Rightarrow> Raised (FileNotFoundError name) w
      | Some q \<Rightarrow>
          (case node_at (fs w) q of
             None \<Rightarrow> Raised (FileNotFoundError name) w
           | Some (File t m) \<Rightarrow> Raised (NotADirectoryError name) w
           | Some Dir \<Rightarrow> Returned () (w\<lparr>cwd := q\<rparr>)))"

text \<open>
  \<^verbatim>\<open>os.system(f"cp {src} {dst}")\<close>. The command is recorded; its exit status is thrown
  away by the scripts, so nothing is raised. The copy is made when \<open>src\<close> is a regular
  file and \<open>dst\<close> a directory that has no subdirectory of the file's name. The scripts
  call it with a directory they have just created; what \<^verbatim>\<open>cp\<close> does with another kind
  of target, and what the shell does with blanks and special characters in the two
  names, is not modelled.
\<close>

definition os_system_cp :: "string \<Rightarrow> string \<Rightarrow> world \<Rightarrow> unit outcome" where
  "os_system_cp src dst w =
     (let w' = w\<lparr>out := out w @ [OsSystem (''cp '' @ src @ '' '' @ dst)]\<rparr>
      in case (abspath (cwd w) src, abspath (cwd w) dst) of
           (Some p, Some q) \<Rightarrow>
             (case node_at (fs w) p of
                Some (File t m) \<Rightarrow>
                  if is_dir (fs w) q \<and> \<not> is_dir (fs w) (q @ [last p])
                  then Returned () (w'\<lparr>fs := fmupd (q @ [last p]) (File t m) (fs w)\<rparr>)
                  else Returned () w'
              | _ \<Rightarrow> Returned () w')
         | _ \<Rightarrow> Returned () w')"

text \<open>
  \<^verbatim>\<open>open(name, "r+")\<close> followed by \<^verbatim>\<open>read\<close>: the file must exist. The value returned
  stands for the open file: where it is, its text and its permission bits.
\<close>

definition open_rplus :: "string \<Rightarrow> world \<Rightarrow> (path \<times> string \<times> nat) outcome" where
  "open_rplus name w =
     (case abspath (cwd w) name of
        None \<Rightarrow> Raised (FileNotFoundError name) w
      | Some q \<Rightarrow>
          (case node_at (fs w) q of
             None \<Rightarrow> Raised (FileNotFoundError name) w
           | Some Dir \<Rightarrow> Raised (IsADirectoryError name) w
           | Some (File t m) \<Rightarrow> Returned (q, t, m) w))"

text \<open>\<^verbatim>\<open>f.seek(0); f.writelines(data); f.truncate()\<close> on the open file.\<close>

definition rewrite_lines :: "path \<times> string \<times> nat \<Rightarrow> string list \<Rightarrow> world \<Rightarrow> unit outcome" where
  "rewrite_lines h data w =
     (case h of (q, t, m) \<Rightarrow> Returned () (w\<lparr>fs := fmupd q (File (concat data) m) (fs w)\<rparr>))"

text \<open>
  \<^verbatim>\<open>os.rename(src, dst)\<close> of a regular file: the directory of \<open>dst\<close> must exist, and
  \<open>dst\<close> must not be a directory; a regular file of that name is replaced. The scripts
  rename only the file they have just rewritten; renaming a directory is not modelled
  and counts as an error.
\<close>

definition os_rename :: "string \<Rightarrow> string \<Rightarrow> world \<Rightarrow> unit outcome" where
  "os_rename src dst w =
     (case (abspath (cwd w) src, abspath (cwd w) dst) of
        (Some p, Some q) \<Rightarrow>
          (case node_at (fs w) p of
             None \<Rightarrow> Raised (FileNotFoundError src) w
           | Some Dir \<Rightarrow> Raised (IsADirectoryError src) w
           | Some (File t m) \<Rightarrow>
               if \<not> is_dir (fs w) (butlast q) then Raised (FileNotFoundError dst) w
               else if is_dir (fs w) q then Raised (IsADirectoryError dst) w
               else Returned () (w\<lparr>fs := fmupd q (File t m) (fmdrop p (fs w))\<rparr>))
      | _ \<Rightarrow> Raised (FileNotFoundError src) w)"

text \<open>\<^verbatim>\<open>with open(name, "w") as sh: sh.write(text)\<close>: the file is created or emptied first.\<close>

definition write_file :: "env \<Rightarrow> string \<Rightarrow> string \<Rightarrow> world \<Rightarrow> unit outcome" where
  "write_file env name text w =
     (case abspath (cwd w) name of
        None \<Rightarrow> Raised (FileNotFoundError name) w
      | Some q \<Rightarrow>
          (case node_at (fs w) q of
             Some Dir \<Rightarrow> Raised (IsADirectoryError name) w
           | Some (File t m) \<Rightarrow> Returned () (w\<lparr>fs := fmupd q (File text m) (fs w)\<rparr>)
           | None \<Rightarrow>
               if is_dir (fs w) (butlast q)
               then Returned () (w\<lparr>fs := fmupd q (File text (new_file_mode env)) (fs w)\<rparr>)
               else Raised (FileNotFoundError name) w))"

text \<open>\<^verbatim>\<open>os.chmod(name, mode)\<close>; a directory carries no permission bits in the model.\<close>

definition os_chmod :: "string \<Rightarrow> nat \<Rightarrow> world \<Rightarrow> unit outcome" where
  "os_chmod name mode w =
     (case abspath (cwd w) name of
        None \<Rightarrow> Raised (FileNotFoundError name) w
      | Some q \<Rightarrow>
          (case node_at (fs w) q of
             None \<Rightarrow> Raised (FileNotFoundError name) w
           | Some Dir \<Rightarrow> Returned () w
           | Some (File t m) \<Rightarrow> Returned () (w\<lparr>fs := fmupd q (File t mode) (fs w)\<rparr>)))"

text \<open>\<^verbatim>\<open>logging.info\<close> and \<^verbatim>\<open>print\<close>.\<close>

definition logging_info :: "string \<Rightarrow> world \<Rightarrow> unit outcome" where
  "logging_info msg w = Returned () (w\<lparr>out := out w @ [LogInfo msg]\<rparr>)"

definition logging_info_dict :: "string \<Rightarrow> submit_description \<Rightarrow> world \<Rightarrow> unit outcome" where
  "logging_info_dict msg d w = Returned () (w\<lparr>out := out w @ [LogInfoDict msg d]\<rparr>)"

definition print_line :: "string \<Rightarrow> world \<Rightarrow> unit outcome" where
  "print_line msg w = Returned () (w\<lparr>out := out w @ [Print msg]\<rparr>)"

text \<open>\<^verbatim>\<open>subprocess.run(cmd, shell=True, capture_output=True, text=True)\<close>: it does not raise
  on a non-zero exit status.\<close>

definition subprocess_run_shell :: "env \<Rightarrow> string \<Rightarrow> world \<Rightarrow> completed_process outcome" where
  "subprocess_run_shell env cmd w =
     Returned (subprocess_run env cmd) (w\<lparr>out := out w @ [SubprocessRun cmd]\<rparr>)"

text \<open>\<^verbatim>\<open>htcondor.Schedd()\<close> and \<^verbatim>\<open>schedd.submit(htcondor.Submit(d)).cluster()\<close>.\<close>

definition htcondor_Schedd :: "env \<Rightarrow> world \<Rightarrow> unit outcome" where
  "htcondor_Schedd env w =
     (case schedd_connect env of
        Some msg \<Rightarrow> Raised (HTCondorError msg) (w\<lparr>out := out w @ [ScheddConnect]\<rparr>)
      | None \<Rightarrow> Returned () (w\<lparr>out := out w @ [ScheddConnect]\<rparr>))"

definition schedd_submit_cluster :: "env \<Rightarrow> submit_description \<Rightarrow> world \<Rightarrow> int outcome" where
  "schedd_submit_cluster env d w =
     (case schedd_submit env d of
        Inl msg \<Rightarrow> Raised (HTCondorError msg) (w\<lparr>out := out w @ [ScheddSubmit d]\<rparr>)
      | Inr cluster \<Rightarrow> Returned cluster (w\<lparr>out := out w @ [ScheddSubmit d]\<rparr>))"

text \<open>
  \<^verbatim>\<open>random.randint(a, b)\<close> is \<^verbatim>\<open>randrange(a, b + 1)\<close>, that is \<open>a\<close> plus a number
  below \<open>b - a + 1\<close> taken from the generator. The scripts call it with \<open>a \<le> b\<close>.
\<close>

definition random_randint :: "env \<Rightarrow> int \<Rightarrow> int \<Rightarrow> world \<Rightarrow> int \<times> world" where
  "random_randint env a b w =
     (a + entropy env (draws w) mod (b - a + 1), w\<lparr>draws := Suc (draws w)\<rparr>)"

subsection \<open>\<^verbatim>\<open>generate_input\<close> (the same in the three scripts)\<close>

text \<open>\<^verbatim>\<open>int(9E7)\<close>.\<close>

definition int_9E7 :: int where
  "int_9E7 = 90000000"

text \<open>\<^verbatim>\<open>f"RANDOMIZ          1.{seed:>10n}\n"\<close>\<close>

definition new_randomiz :: "int \<Rightarrow> string" where
  "new_randomiz seed = ''RANDOMIZ          1.'' @ fmt_r10n seed @ [CHR 0x0A]"

text \<open>\<^verbatim>\<open>f.readlines()\<close>: the lines of the text, each with its line end.\<close>

fun readlines :: "string \<Rightarrow> string list" where
  "readlines [] = []"
| "readlines (c # cs) =
     (if c = CHR 0x0A then [c] # readlines cs
      else (case readlines cs of [] \<Rightarrow> [[c]] | l # ls \<Rightarrow> (c # l) # ls))"

text \<open>
  The loop over \<^verbatim>\<open>enumerate(data)\<close>: the first line that has \<^verbatim>\<open>RANDOMIZ\<close> in it is
  replaced and the loop is left.
\<close>

fun replace_randomiz :: "string list \<Rightarrow> string \<Rightarrow> string list" where
  "replace_randomiz [] new = []"
| "replace_randomiz (line # rest) new =
     (if sublist ''RANDOMIZ'' line then new # rest else line # replace_randomiz rest new)"

definition generate_input :: "env \<Rightarrow> string \<Rightarrow> int \<Rightarrow> world \<Rightarrow> string outcome" where
  "generate_input env input iteration w0 =
     (case random_randint env 1 int_9E7 w0 of (seed, w) \<Rightarrow>
        and_then (open_rplus (input @ ''.inp'') w) (\<lambda>f w.
          let data = replace_randomiz (readlines (fst (snd f))) (new_randomiz seed) in
          and_then (rewrite_lines f data w) (\<lambda>_ w.
            let file_name = input @ ''_'' @ fmt_04d iteration @ ''.inp'' in
            and_then (os_rename (input @ ''.inp'') file_name w) (\<lambda>_ w.
              Returned file_name w))))"

subsection \<open>Script templates\<close>

text \<open>
  A \<^verbatim>\<open>string.Template\<close> is its literal text cut at the placeholders.
  \<^verbatim>\<open>substitute\<close> goes through it from the left and raises \<^verbatim>\<open>KeyError\<close> at the first
  placeholder that has no value among the keyword arguments.
\<close>

datatype piece = Lit string | Var string

fun substitute :: "piece list \<Rightarrow> (string \<times> string) list \<Rightarrow> error + string" where
  "substitute [] kws = Inr []"
| "substitute (Lit s # ps) kws =
     (case substitute ps kws of Inl e \<Rightarrow> Inl e | Inr r \<Rightarrow> Inr (s @ r))"
| "substitute (Var v # ps) kws =
     (case map_of kws v of
        None \<Rightarrow> Inl (KeyError v)
      | Some s \<Rightarrow> (case substitute ps kws of Inl e \<Rightarrow> Inl e | Inr r \<Rightarrow> Inr (s @ r)))"

text \<open>\<^verbatim>\<open>SCRIPT_TEMPLATE\<close> of \<^verbatim>\<open>launch_jobs_htcondor.py\<close>.\<close>

definition SCRIPT_TEMPLATE_htcondor :: "piece list" where
  "SCRIPT_TEMPLATE_htcondor =
     [Lit (''#!/bin/env bash'' @ [CHR 0x0A, CHR 0x0A] @
           ''. /cvmfs/sft.cern.ch/lcg/views/setupViews.sh LCG_97python3 x86_64-centos7-gcc9-opt'' @
           [CHR 0x0A, CHR 0x0A]),
      Var ''fluka_command'', Lit '' '', Var ''input'', Lit [CHR 0x0A]]"


subsection \<open>\<^verbatim>\<open>generate_sh\<close>\<close>

text \<open>
  The command line of the simulation, as \<^verbatim>\<open>generate_sh\<close> builds it in the HTCondor and
  in the LSF script: \<^verbatim>\<open>f"{fluka_path}/rfluka -M 1" if custom_exe == "None" else
  f"{fluka_path}/rfluka -M 1 -e {custom_exe}"\<close>.
\<close>

definition fluka_command :: "string \<Rightarrow> string \<Rightarrow> string" where
  "fluka_command fluka_path custom_exe =
     (if custom_exe = ''None'' then fluka_path @ ''/rfluka -M 1''
      else fluka_path @ ''/rfluka -M 1 -e '' @ custom_exe)"

text \<open>
  The command line of the task-spooler script, built in its \<^verbatim>\<open>launch_jobs\<close>:
  \<^verbatim>\<open>f"rfluka -M 1 {new_input}" if custom_exe == "None" else
  f"rfluka -M 1 -e {custom_exe} {new_input}"\<close>.
\<close>

definition fluka_command_ts :: "string \<Rightarrow> string \<Rightarrow> string" where
  "fluka_command_ts custom_exe new_input =
     (if custom_exe = ''None'' then ''rfluka -M 1 '' @ new_input
      else ''rfluka -M 1 -e '' @ custom_exe @ '' '' @ new_input)"

text \<open>\<^verbatim>\<open>generate_sh\<close> of \<^verbatim>\<open>launch_jobs_htcondor.py\<close>; \<open>493\<close> is \<^verbatim>\<open>0o755\<close>.\<close>

definition generate_sh_htcondor ::
  "env \<Rightarrow> string \<Rightarrow> int \<Rightarrow> string \<Rightarrow> string \<Rightarrow> world \<Rightarrow> string outcome" where
  "generate_sh_htcondor env input iteration fluka_path custom_exe w =
     (case substitute SCRIPT_TEMPLATE_htcondor
             [(''fluka_command'', fluka_command fluka_path custom_exe), (''input'', input)] of
        Inl e \<Rightarrow> Raised e w
      | Inr script_content \<Rightarrow>
          let script_name = ''job_'' @ fmt_04d iteration @ ''.sh'' in
          and_then (write_file env script_name script_content w) (\<lambda>_ w.
            and_then (os_chmod script_name 493 w) (\<lambda>_ w.
              Returned script_name w)))"


subsection \<open>\<^verbatim>\<open>generate_submit_description\<close> (HTCondor)\<close>

definition generate_submit_description ::
  "int \<Rightarrow> string \<Rightarrow> string \<Rightarrow> string \<Rightarrow> int \<Rightarrow> int \<Rightarrow> int \<Rightarrow> string \<Rightarrow> string \<Rightarrow> string \<Rightarrow> string
     \<Rightarrow> submit_description" where
  "generate_submit_description iteration input script_name mem ncpu disk time transfer_files
       output error log =
     [(''universe'', PyStr ''vanilla''),
      (''executable'', PyStr script_name),
      (''transfer_input_files'', PyStr input),
      (''should_transfer_files'', PyStr transfer_files),
      (''when_to_transfer_output'', PyStr ''ON_EXIT''),
      (''output'', PyStr output),
      (''error'', PyStr error),
      (''log'', PyStr log),
      (''request_memory'', PyStr mem),
      (''request_cpus'', PyInt ncpu),
      (''request_disk'', PyInt disk),
      (''+MaxRuntime'', PyInt time)]"

subsection \<open>One iteration of the job loop\<close>

text \<open>\<^verbatim>\<open>str.strip()\<close> on ASCII text.\<close>

definition is_space :: "char \<Rightarrow> bool" where
  "is_space c = (c \<in> set [CHR 0x09, CHR 0x0A, CHR 0x0B, CHR 0x0C, CHR 0x0D,
                           CHR 0x1C, CHR 0x1D, CHR 0x1E, CHR 0x1F, CHR 0x20])"

definition strip :: "string \<Rightarrow> string" where
  "strip s = rev (dropWhile is_space (rev (dropWhile is_space s)))"

text \<open>
  The body of the \<^verbatim>\<open>for\<close> loop of \<^verbatim>\<open>launch_jobs\<close> in \<^verbatim>\<open>launch_jobs_htcondor.py\<close>,
  lines 107 to 123. The queue name is an argument of \<^verbatim>\<open>launch_jobs\<close> and is kept
  here, as the loop body may read every variable of the function.
\<close>

definition job_htcondor ::
  "env \<Rightarrow> string \<Rightarrow> string \<Rightarrow> string \<Rightarrow> string \<Rightarrow> int \<Rightarrow> int \<Rightarrow> int \<Rightarrow> bool \<Rightarrow> string \<Rightarrow> string
     \<Rightarrow> string \<Rightarrow> string \<Rightarrow> string \<Rightarrow> string \<Rightarrow> int \<Rightarrow> world \<Rightarrow> unit outcome" where
  "job_htcondor env input_file custom_exe queue mem ncpu disk time dry_run transfer_files
       output error log directory stripped_name i w =
     (let job_name = ''job_'' @ fmt_04d i;
          job_dir = path_join directory job_name
      in and_then (os_makedirs job_dir w) (\<lambda>_ w.
         and_then (os_system_cp input_file job_dir w) (\<lambda>_ w.
         and_then (os_chdir job_dir w) (\<lambda>_ w.
         and_then (generate_input env stripped_name i w) (\<lambda>new_input w.
         and_then (generate_sh_htcondor env new_input i (FLUKA_PATH env) custom_exe w) (\<lambda>script_name w.
         let submit_description =
               generate_submit_description i new_input script_name mem ncpu disk time
                 transfer_files output error log
         in and_then
              (if dry_run
               then logging_info_dict ''Dry run: condor_submit '' submit_description w
               else and_then (schedd_submit_cluster env submit_description w) (\<lambda>cluster w.
                      logging_info (''Submitted job '' @ str_int cluster) w))
              (\<lambda>_ w. os_chdir ''../..'' w)))))))"



text \<open>The submission of one job in \<^verbatim>\<open>launch_jobs_ts.py\<close>, lines 65 to 72.\<close>

definition submit_ts :: "env \<Rightarrow> int \<Rightarrow> bool \<Rightarrow> string \<Rightarrow> world \<Rightarrow> unit outcome" where
  "submit_ts env i dry_run command w =
     (if dry_run then logging_info (''Dry run: ts '' @ command) w
      else and_then (subprocess_run_shell env (''ts '' @ command) w) (\<lambda>result w.
             if returncode result = 0
             then print_line (''Job '' @ str_int i @ '' submitted: '' @ strip (stdout result)) w
             else print_line (''Job '' @ str_int i @ '' submission failed: ''
                                @ strip (stderr result)) w))"

text \<open>The loop body of \<^verbatim>\<open>launch_jobs_ts.py\<close>, lines 56 to 74.\<close>

definition job_ts ::
  "env \<Rightarrow> string \<Rightarrow> string \<Rightarrow> bool \<Rightarrow> string \<Rightarrow> string \<Rightarrow> int \<Rightarrow> world \<Rightarrow> unit outcome" where
  "job_ts env input_file custom_exe dry_run directory stripped_name i w =
     (let job_name = ''job_'' @ fmt_04d i;
          job_dir = path_join directory job_name
      in and_then (os_makedirs job_dir w) (\<lambda>_ w.
         and_then (os_system_cp input_file job_dir w) (\<lambda>_ w.
         and_then (os_chdir job_dir w) (\<lambda>_ w.
         and_then (generate_input env stripped_name i w) (\<lambda>new_input w.
         and_then (submit_ts env i dry_run (fluka_command_ts custom_exe new_input) w) (\<lambda>_ w.
         os_chdir ''../..'' w))))))"

text \<open>\<^verbatim>\<open>for i in range(1, job_number + 1)\<close>: an exception in the body leaves the loop.\<close>

fun for_jobs :: "(int \<Rightarrow> world \<Rightarrow> unit outcome) \<Rightarrow> int list \<Rightarrow> world \<Rightarrow> unit outcome" where
  "for_jobs body [] w = Returned () w"
| "for_jobs body (i # rest) w = and_then (body i w) (\<lambda>_ w. for_jobs body rest w)"

section \<open>Vocabulary of the properties\<close>

text \<open>
  A name that stands for itself as a path component: not empty and not one of the two
  names every directory knows.
\<close>

definition proper_name :: "string \<Rightarrow> bool" where
  "proper_name c = (c \<noteq> [] \<and> c \<noteq> ''.'' \<and> c \<noteq> ''..'')"

text \<open>\<^verbatim>\<open>os.stat\<close>, as far as the model goes: the node a path name leads to.\<close>

definition stat :: "world \<Rightarrow> string \<Rightarrow> node option" where
  "stat w name = (case abspath (cwd w) name of None \<Rightarrow> None | Some q \<Rightarrow> node_at (fs w) q)"







text \<open>The events of \<^verbatim>\<open>logging.info\<close>.\<close>

definition is_log :: "event \<Rightarrow> bool" where
  "is_log e = (case e of LogInfo m \<Rightarrow> True | LogInfoDict m d \<Rightarrow> True | _ \<Rightarrow> False)"

text \<open>
  The first four statements of the loop body, the same in the three scripts: make the
  job directory, copy the template, change into the directory, rewrite the seed.
\<close>

definition prepare_job :: "env \<Rightarrow> string \<Rightarrow> string \<Rightarrow> string \<Rightarrow> int \<Rightarrow> world \<Rightarrow> string outcome" where
  "prepare_job env input_file directory stripped_name i w =
     (let job_dir = path_join directory (''job_'' @ fmt_04d i)
      in and_then (os_makedirs job_dir w) (\<lambda>_ w.
         and_then (os_system_cp input_file job_dir w) (\<lambda>_ w.
         and_then (os_chdir job_dir w) (\<lambda>_ w.
         generate_input env stripped_name i w))))"

text \<open>A directory name of one component, relative to the working directory.\<close>

definition plain_name :: "string \<Rightarrow> bool" where
  "plain_name d = (proper_name d \<and> CHR ''/'' \<notin> set d)"

text \<open>
  Two outcomes take the same course when both return the same value or both raise the
  same error, and the file system, the working directory and the number of draws are
  the same; what has been logged and printed may differ.
\<close>

definition core :: "world \<Rightarrow> filesystem \<times> path \<times> nat" where
  "core w = (fs w, cwd w, draws w)"

fun same_course :: "'a outcome \<Rightarrow> 'a outcome \<Rightarrow> bool" where
  "same_course (Returned x a) (Returned y b) = (x = y \<and> core a = core b)"
| "same_course (Raised e a) (Raised e' b) = (e = e' \<and> core a = core b)"
| "same_course (Returned x a) (Raised e' b) = False"
| "same_course (Raised e a) (Returned y b) = False"

text \<open>The commands given to \<^verbatim>\<open>subprocess.run\<close> and the lines printed.\<close>

definition is_report :: "event \<Rightarrow> bool" where
  "is_report e = (case e of SubprocessRun c \<Rightarrow> True | Print m \<Rightarrow> True | _ \<Rightarrow> False)"

text \<open>
  A user's directory with the template \<^verbatim>\<open>run.inp\<close>, which has two lines with the marker
  and no line end after its last line, and the template \<^verbatim>\<open>plain.inp\<close>, which has no
  line with the marker; a generator whose raw numbers are
  41, 42, 43 and so on; a submission command that fails with a message on standard error; and
  an HTCondor scheduler that accepts every job as cluster seven.
\<close>

definition example_env :: env where
  "example_env =
     \<lparr>FLUKA_PATH = ''/opt/fluka/bin'',
      entropy = (\<lambda>n. 41 + int n),
      new_file_mode = 420,
      subprocess_run = (\<lambda>c. \<lparr>returncode = 1, stdout = [], stderr = ''queue closed'' @ [CHR 0x0A]\<rparr>),
      schedd_connect = None,
      schedd_submit = (\<lambda>d. Inr 7)\<rparr>"

definition example_world :: world where
  "example_world =
     \<lparr>fs = fmupd [''home'', ''user'', ''plain.inp'']
             (File (''TITLE'' @ [CHR 0x0A] @ ''STOP'' @ [CHR 0x0A]) 420)
             (fmupd [''home'', ''user'', ''run.inp'']
                (File (''TITLE'' @ [CHR 0x0A] @ ''RANDOMIZ          1.'' @ [CHR 0x0A] @
                       ''* RANDOMIZ again'' @ [CHR 0x0A] @ ''STOP'') 420)
                (fmupd [''home'', ''user''] Dir (fmupd [''home''] Dir fmempty))),
      cwd = [''home'', ''user''],
      draws = 0,
      out = []\<rparr>"

section \<open>The output directory and \<^verbatim>\<open>launch_jobs\<close>\<close>

subsection \<open>The output directory\<close>

text \<open>
  The decimal rendering of a number determines the number, and the candidate names
  \<open>base_1\<close>, \<open>base_2\<close>, ... are names of different files.
\<close>

lemma digit_char_inj: "a < 10 \<Longrightarrow> b < 10 \<Longrightarrow> digit_char a = digit_char b \<Longrightarrow> a = b"
proof -
  assume "a < 10" "b < 10" "digit_char a = digit_char b"
  moreover have "distinct ''0123456789''" by simp
  ultimately show ?thesis
    unfolding digit_char_def by (simp add: nth_eq_iff_index_eq)
qed

lemma str_nat_not_Nil: "str_nat n \<noteq> []" "[] \<noteq> str_nat n"
  by (subst str_nat.simps, simp)+

lemma str_nat_inj: "str_nat a = str_nat b \<Longrightarrow> a = b"
proof (induction a arbitrary: b rule: str_nat.induct)
  case (1 n)
  show ?case
  proof (cases "n < 10")
    case True
    then have sn: "str_nat n = [digit_char n]" by (subst str_nat.simps) simp
    show ?thesis
    proof (cases "b < 10")
      case True
      then have "str_nat b = [digit_char b]" by (subst str_nat.simps) simp
      with sn "1.prems" \<open>n < 10\<close> True show ?thesis by (auto dest: digit_char_inj)
    next
      case False
      then have "str_nat b = str_nat (b div 10) @ [digit_char (b mod 10)]"
        by (subst str_nat.simps) simp
      with sn "1.prems" show ?thesis by (simp add: str_nat_not_Nil)
    qed
  next
    case False
    then have sn: "str_nat n = str_nat (n div 10) @ [digit_char (n mod 10)]"
      by (subst str_nat.simps) simp
    show ?thesis
    proof (cases "b < 10")
      case True
      then have "str_nat b = [digit_char b]" by (subst str_nat.simps) simp
      with sn "1.prems" show ?thesis by (simp add: str_nat_not_Nil)
    next
      case b: False
      then have sb: "str_nat b = str_nat (b div 10) @ [digit_char (b mod 10)]"
        by (subst str_nat.simps) simp
      from sn sb "1.prems" have e1: "str_nat (n div 10) = str_nat (b div 10)"
        and e2: "digit_char (n mod 10) = digit_char (b mod 10)" by auto
      from "1.IH"[OF False e1] have "n div 10 = b div 10" .
      moreover from e2 have "n mod 10 = b mod 10" by (auto dest!: digit_char_inj[rotated 2])
      ultimately show ?thesis by (metis div_mult_mod_eq)
    qed
  qed
qed

lemma digit_char_in: "d < 10 \<Longrightarrow> digit_char d \<in> set ''0123456789''"
proof -
  assume "d < 10"
  then have "d < length ''0123456789''" by simp
  then show ?thesis unfolding digit_char_def by (rule nth_mem)
qed

lemma str_nat_digits: "set (str_nat n) \<subseteq> set ''0123456789''"
proof (induction n rule: str_nat.induct)
  case (1 n)
  show ?case
  proof (cases "n < 10")
    case True
    then show ?thesis using digit_char_in[of n] by (subst str_nat.simps) simp
  next
    case False
    moreover have "n mod 10 < 10" by simp
    ultimately show ?thesis using "1.IH" digit_char_in[of "n mod 10"]
      by (subst str_nat.simps) auto
  qed
qed

lemma str_int_inj: "str_int a = str_int b \<Longrightarrow> a = b"
proof -
  assume eq: "str_int a = str_int b"
  have nm: "\<And>n. hd (str_nat n) \<noteq> CHR ''-''"
  proof -
    fix n
    have "hd (str_nat n) \<in> set (str_nat n)" by (simp add: str_nat_not_Nil)
    with str_nat_digits[of n] show "hd (str_nat n) \<noteq> CHR ''-''" by auto
  qed
  show ?thesis
  proof (cases "a < 0"; cases "b < 0")
    assume "a < 0" "b < 0"
    with eq have "nat (- a) = nat (- b)" by (auto simp: str_int_def dest: str_nat_inj)
    with \<open>a < 0\<close> \<open>b < 0\<close> show ?thesis by simp
  next
    assume "a < 0" "\<not> b < 0"
    with eq nm[of "nat b"] show ?thesis
      by (auto simp: str_int_def) (metis list.sel(1))
  next
    assume "\<not> a < 0" "b < 0"
    with eq nm[of "nat a"] show ?thesis
      by (auto simp: str_int_def)
  next
    assume "\<not> a < 0" "\<not> b < 0"
    with eq have "nat a = nat b" by (auto simp: str_int_def dest: str_nat_inj)
    with \<open>\<not> a < 0\<close> \<open>\<not> b < 0\<close> show ?thesis by simp
  qed
qed

lemma components_not_Nil: "components p \<noteq> []"
  by (induction p) (auto split: list.splits)

lemma components_append:
  "CHR ''/'' \<notin> set s \<Longrightarrow>
   components (p @ s) = butlast (components p) @ [last (components p) @ s]"
proof (induction p)
  case Nil
  then show ?case
  proof (induction s)
    case Nil
    then show ?case by simp
  next
    case (Cons c s)
    then show ?case by (auto split: list.splits)
  qed
next
  case (Cons c p)
  then show ?case
    using components_not_Nil[of p] components_not_Nil[of "p @ s"]
    by (cases "components p"; cases "butlast (components p) @ [last (components p) @ s]")
       (auto split: list.splits if_splits)
qed

lemma normpath_append: "normpath cur (xs @ ys) = normpath (normpath cur xs) ys"
  by (induction xs arbitrary: cur) auto

lemma normpath_snoc:
  "proper_name c \<Longrightarrow> normpath cur (xs @ [c]) = normpath cur xs @ [c]"
  by (simp add: normpath_append proper_name_def)

lemma abspath_append:
  assumes "CHR ''/'' \<notin> set s" and "proper_name (last (components p) @ s)"
  shows "abspath wd (p @ s) =
         Some (normpath (if hd (p @ s) = CHR ''/'' then [] else wd) (butlast (components p))
               @ [last (components p) @ s])"
proof -
  from assms(2) have "p @ s \<noteq> []"
    by (cases p) (auto simp: proper_name_def)
  then show ?thesis
    using assms by (simp add: abspath_def components_append normpath_snoc)
qed

lemma proper_underscore: "proper_name (l @ CHR ''_'' # t)"
proof -
  have m: "CHR ''_'' \<in> set (l @ CHR ''_'' # t)" by simp
  have "l @ CHR ''_'' # t \<noteq> ''.''"
  proof
    assume "l @ CHR ''_'' # t = ''.''"
    with m have "CHR ''_'' \<in> set ''.''" by simp
    then show False by simp
  qed
  moreover have "l @ CHR ''_'' # t \<noteq> ''..''"
  proof
    assume "l @ CHR ''_'' # t = ''..''"
    with m have "CHR ''_'' \<in> set ''..''" by simp
    then show False by simp
  qed
  ultimately show ?thesis by (simp add: proper_name_def)
qed

lemma str_int_no_slash: "CHR ''/'' \<notin> set (str_int k)"
  using str_nat_digits[of "nat k"] str_nat_digits[of "nat (- k)"]
  by (auto simp: str_int_def)

lemma abspath_candidate:
  "abspath wd (base @ CHR ''_'' # str_int k) =
     Some (normpath (if hd (base @ ''_'') = CHR ''/'' then [] else wd) (butlast (components base))
           @ [last (components base) @ CHR ''_'' # str_int k])"
proof -
  have "hd (base @ CHR ''_'' # str_int k) = hd (base @ ''_'')" by (cases base) auto
  then show ?thesis
    using abspath_append[of "CHR ''_'' # str_int k" base wd] str_int_no_slash[of k]
      proper_underscore[of "last (components base)" "str_int k"]
    by simp
qed

lemma finite_candidates:
  "finite {k. path_exists w (base @ CHR ''_'' # str_int k)}"
proof -
  define D where "D = normpath (if hd (base @ ''_'') = CHR ''/'' then [] else cwd w) (butlast (components base))"
  define g where "g = (\<lambda>k. D @ [last (components base) @ CHR ''_'' # str_int k])"
  have ap: "abspath (cwd w) (base @ CHR ''_'' # str_int k) = Some (g k)" for k
    unfolding g_def D_def by (rule abspath_candidate)
  have "inj g" by (rule injI) (auto simp: g_def dest: str_int_inj)
  then have "finite (g -` (insert [] (fmdom' (fs w))))"
    by (intro finite_vimageI) auto
  moreover have "{k. path_exists w (base @ CHR ''_'' # str_int k)} \<subseteq> g -` (insert [] (fmdom' (fs w)))"
    by (auto simp: path_exists_def ap node_at_def fmlookup_dom'_iff split: if_splits)
  ultimately show ?thesis by (rule rev_finite_subset)
qed

text \<open>
  The \<^verbatim>\<open>while\<close> loop at the head of \<^verbatim>\<open>launch_jobs\<close>, the same in the three scripts:
  \<^verbatim>\<open>while os.path.exists(new_directory_name):
      new_directory_name = f"{base_directory_name}_{counter}"; counter += 1\<close>.
  It ends on every file system, since only finitely many of the candidate names exist.
\<close>

function find_new_directory_name :: "world \<Rightarrow> string \<Rightarrow> string \<Rightarrow> int \<Rightarrow> string" where
  "find_new_directory_name w base name counter =
     (if path_exists w name
      then find_new_directory_name w base (base @ ''_'' @ str_int counter) (counter + 1)
      else name)"
  by pat_completeness auto

termination
proof (relation "measure (\<lambda>(w, base, name, counter).
          card {k. counter \<le> k \<and> path_exists w (base @ CHR ''_'' # str_int k)}
          + (if path_exists w name then 1 else 0))")
  show "wf (measure (\<lambda>(w, base, name, counter).
          card {k. counter \<le> k \<and> path_exists w (base @ CHR ''_'' # str_int k)}
          + (if path_exists w name then 1 else 0)))" by simp
next
  fix w :: world and base name :: string and counter :: int
  assume ex: "path_exists w name"
  let ?A = "\<lambda>c. {k. c \<le> k \<and> path_exists w (base @ CHR ''_'' # str_int k)}"
  have fin: "finite (?A c)" for c
    by (rule finite_subset[OF _ finite_candidates[of w base]]) auto
  have split: "?A counter = (if path_exists w (base @ CHR ''_'' # str_int counter)
                            then insert counter (?A (counter + 1)) else ?A (counter + 1))"
  proof -
    have "x = counter \<or> counter + 1 \<le> x" if "counter \<le> x" for x
      using that by arith
    then show ?thesis by (cases "path_exists w (base @ CHR ''_'' # str_int counter)") auto
  qed
  have "card (?A counter) = card (?A (counter + 1))
          + (if path_exists w (base @ CHR ''_'' # str_int counter) then 1 else 0)"
    by (subst split) (simp add: fin)
  with ex show "((w, base, base @ ''_'' @ str_int counter, counter + 1), (w, base, name, counter))
        \<in> measure (\<lambda>(w, base, name, counter).
            card {k. counter \<le> k \<and> path_exists w (base @ CHR ''_'' # str_int k)}
            + (if path_exists w name then 1 else 0))"
    by simp
qed

declare find_new_directory_name.simps [simp del]

subsection \<open>\<^verbatim>\<open>launch_jobs\<close>\<close>

text \<open>\<^verbatim>\<open>launch_jobs\<close> of \<^verbatim>\<open>launch_jobs_htcondor.py\<close>. \<open>output_dir\<close> is \<open>None\<close> or a string.\<close>

definition launch_jobs_htcondor ::
  "env \<Rightarrow> string \<Rightarrow> int \<Rightarrow> string \<Rightarrow> string \<Rightarrow> string \<Rightarrow> int \<Rightarrow> int \<Rightarrow> int \<Rightarrow> bool \<Rightarrow> string option
     \<Rightarrow> string \<Rightarrow> string \<Rightarrow> string \<Rightarrow> string \<Rightarrow> world \<Rightarrow> unit outcome" where
  "launch_jobs_htcondor env input_file job_number custom_exe queue mem ncpu disk time dry_run
       output_dir transfer_files output error log w =
     (let stripped_name = fst (splitext (basename input_file));
          base_directory_name = (case output_dir of None \<Rightarrow> stripped_name | Some d \<Rightarrow> d);
          directory = find_new_directory_name w base_directory_name base_directory_name 1
      in and_then (os_makedirs directory w) (\<lambda>_ w.
         and_then (if \<not> dry_run then htcondor_Schedd env w else Returned () w) (\<lambda>_ w.
         for_jobs
           (job_htcondor env input_file custom_exe queue mem ncpu disk time dry_run
              transfer_files output error log directory stripped_name)
           [1..job_number] w)))"


text \<open>\<^verbatim>\<open>launch_jobs\<close> of \<^verbatim>\<open>scripts/launch_jobs_ts.py\<close>.\<close>

definition launch_jobs_ts ::
  "env \<Rightarrow> string \<Rightarrow> int \<Rightarrow> string \<Rightarrow> bool \<Rightarrow> string option \<Rightarrow> world \<Rightarrow> unit outcome" where
  "launch_jobs_ts env input_file job_number custom_exe dry_run output_dir w =
     (let stripped_name = fst (splitext (basename input_file));
          base_directory_name = (case output_dir of None \<Rightarrow> stripped_name | Some d \<Rightarrow> d);
          directory = find_new_directory_name w base_directory_name base_directory_name 1
      in and_then (os_makedirs directory w) (\<lambda>_ w.
         for_jobs (job_ts env input_file custom_exe dry_run directory stripped_name)
           [1..job_number] w))"

section \<open>Properties\<close>

subsection \<open>The seed record\<close>

lemma str_nat_length: "n < 10 ^ k \<Longrightarrow> 0 < k \<Longrightarrow> length (str_nat n) \<le> k"
proof (induction n arbitrary: k rule: str_nat.induct)
  case (1 n)
  show ?case
  proof (cases "n < 10")
    case True
    with "1.prems" show ?thesis by (subst str_nat.simps) simp
  next
    case False
    from "1.prems" obtain j where k: "k = Suc j" by (cases k) auto
    with False "1.prems" have "0 < j" by (cases j) auto
    moreover from "1.prems" k have "n div 10 < 10 ^ j" by (simp add: less_mult_imp_div_less mult.commute)
    ultimately have "length (str_nat (n div 10)) \<le> j" using "1.IH"[OF False] by blast
    with False k show ?thesis by (subst str_nat.simps) simp
  qed
qed

lemma randint_range:
  "a \<le> b \<Longrightarrow> a \<le> fst (random_randint env a b w) \<and> fst (random_randint env a b w) \<le> b"
proof -
  assume "a \<le> b"
  then have "0 < b - a + 1" by simp
  then have "0 \<le> entropy env (draws w) mod (b - a + 1) \<and>
             entropy env (draws w) mod (b - a + 1) < b - a + 1"
    by (intro conjI pos_mod_sign pos_mod_bound)
  then show ?thesis unfolding random_randint_def fst_conv by linarith
qed

lemma str_int_seed_length: "1 \<le> s \<Longrightarrow> s \<le> int_9E7 \<Longrightarrow> length (str_int s) \<le> 8"
proof -
  assume "1 \<le> s" "s \<le> int_9E7"
  then have "nat s < 10 ^ 8" by (simp add: int_9E7_def)
  then have "length (str_nat (nat s)) \<le> 8" by (rule str_nat_length) simp
  with \<open>1 \<le> s\<close> show ?thesis by (simp add: str_int_def)
qed

text \<open>
  Claim C4, as amended. Every seed record the mutator builds is one line: the marker
  \<^verbatim>\<open>RANDOMIZ\<close>, ten blanks, the literal \<^verbatim>\<open>1.\<close>, the seed right-aligned in a field of
  exactly ten characters, and the line end, with no other line end before it. The seed
  is an integer of the closed range from 1 to 90 000 000: \<^verbatim>\<open>random.randint\<close> includes
  its upper bound.
\<close>

theorem seed_record_closed_range:
  "1 \<le> fst (random_randint env 1 int_9E7 w) \<and>
   fst (random_randint env 1 int_9E7 w) \<le> 90000000 \<and>
   new_randomiz (fst (random_randint env 1 int_9E7 w)) =
     ''RANDOMIZ'' @ replicate 10 CHR '' '' @ ''1.'' @
     replicate (10 - length (str_int (fst (random_randint env 1 int_9E7 w)))) CHR '' '' @
     str_int (fst (random_randint env 1 int_9E7 w)) @ [CHR 0x0A] \<and>
   length (fmt_r10n (fst (random_randint env 1 int_9E7 w))) = 10 \<and>
   CHR 0x0A \<notin> set (butlast (new_randomiz (fst (random_randint env 1 int_9E7 w))))"
proof -
  define seed where "seed = fst (random_randint env 1 int_9E7 w)"
  have r: "1 \<le> seed \<and> seed \<le> int_9E7"
    unfolding seed_def by (rule randint_range) (simp add: int_9E7_def)
  then have len: "length (str_int seed) \<le> 8" by (simp add: str_int_seed_length)
  have nl: "CHR 0x0A \<notin> set (str_int seed)"
    using str_nat_digits[of "nat seed"] r by (auto simp: str_int_def)
  have "new_randomiz seed = ''RANDOMIZ'' @ replicate 10 CHR '' '' @ ''1.'' @
     replicate (10 - length (str_int seed)) CHR '' '' @ str_int seed @ [CHR 0x0A]"
    by (simp add: new_randomiz_def fmt_r10n_def replicate_append_same numeral_eq_Suc)
  moreover have "length (fmt_r10n seed) = 10" using len by (simp add: fmt_r10n_def)
  moreover have "CHR 0x0A \<notin> set (butlast (new_randomiz seed))"
    using nl by (simp add: new_randomiz_def fmt_r10n_def butlast_append)
  ultimately show ?thesis using r unfolding seed_def[symmetric] by (simp add: int_9E7_def)
qed

text \<open>
  Claim C4 as stated asks for a seed strictly below 90 000 000. With a generator whose
  raw number is 89 999 999, \<^verbatim>\<open>random.randint(1, int(9E7))\<close> returns 90 000 000 itself,
  and the record carries it.
\<close>

theorem seed_reaches_upper_bound:
  "fst (random_randint (example_env\<lparr>entropy := (\<lambda>n. 89999999)\<rparr>) 1 int_9E7 example_world) = 90000000 \<and>
   \<not> fst (random_randint (example_env\<lparr>entropy := (\<lambda>n. 89999999)\<rparr>) 1 int_9E7 example_world)
       < 90000000 \<and>
   new_randomiz
     (fst (random_randint (example_env\<lparr>entropy := (\<lambda>n. 89999999)\<rparr>) 1 int_9E7 example_world)) =
     ''RANDOMIZ          1.  90000000'' @ [CHR 0x0A]"
  by (simp add: random_randint_def example_env_def example_world_def int_9E7_def
        new_randomiz_def fmt_r10n_def str_int_def str_nat.simps digit_char_def)
     (simp add: numeral_2_eq_2)

subsection \<open>The custom executable\<close>

text \<open>
  Claim C7, as amended. The sentinel is the string \<^verbatim>\<open>None\<close> with a capital N, the
  default of the command-line option. With it the command is the default binary with
  the restart flag \<^verbatim>\<open>-M 1\<close> and nothing else; with every other value the command has
  the override flag \<^verbatim>\<open>-e\<close> followed by exactly that value. This holds for the command
  of \<^verbatim>\<open>generate_sh\<close> and for the one the task-spooler script builds.
\<close>

theorem custom_exe_sentinel_is_None: 
  "(custom_exe = ''None'' \<longrightarrow>
      fluka_command fluka_path custom_exe = fluka_path @ ''/rfluka -M 1'' \<and>
      fluka_command_ts custom_exe new_input = ''rfluka -M 1 '' @ new_input) \<and>
   (custom_exe \<noteq> ''None'' \<longrightarrow>
      fluka_command fluka_path custom_exe = fluka_path @ ''/rfluka -M 1 -e '' @ custom_exe \<and>
      fluka_command_ts custom_exe new_input = ''rfluka -M 1 -e '' @ custom_exe @ '' '' @ new_input)"
  by (simp add: fluka_command_def fluka_command_ts_def)

theorem custom_exe_sentinel_is_None_witness:
  "fluka_command ''/opt/fluka/bin'' ''None'' = ''/opt/fluka/bin/rfluka -M 1'' \<and>
   fluka_command_ts ''None'' ''run_0001.inp'' = ''rfluka -M 1 run_0001.inp'' \<and>
   fluka_command ''/opt/fluka/bin'' ''./myfluka'' = ''/opt/fluka/bin/rfluka -M 1 -e ./myfluka'' \<and>
   fluka_command_ts ''./myfluka'' ''run_0001.inp'' = ''rfluka -M 1 -e ./myfluka run_0001.inp''"
  using custom_exe_sentinel_is_None[of "''None''" "''/opt/fluka/bin''" "''run_0001.inp''"]
        custom_exe_sentinel_is_None[of "''./myfluka''" "''/opt/fluka/bin''" "''run_0001.inp''"]
  by simp

text \<open>
  Claim C7 as stated names the sentinel \<^verbatim>\<open>none\<close>. That value is not the sentinel: the
  command built from it has the override flag, and the value \<^verbatim>\<open>None\<close>, which differs
  from it, gets no override flag.
\<close>

theorem custom_exe_none_counterexample:
  "fluka_command ''/opt/fluka/bin'' ''none'' = ''/opt/fluka/bin/rfluka -M 1 -e none'' \<and>
   fluka_command_ts ''none'' ''run_0001.inp'' = ''rfluka -M 1 -e none run_0001.inp'' \<and>
   fluka_command ''/opt/fluka/bin'' ''None'' = ''/opt/fluka/bin/rfluka -M 1'' \<and> ''None'' \<noteq> ''none''"
  by (simp add: fluka_command_def fluka_command_ts_def)

text \<open>
  The script \<^verbatim>\<open>generate_sh\<close> of the HTCondor script writes: the fixed head of the
  template, then the command, a blank, the input name and a line end.
\<close>

lemma htcondor_script_content:
  "substitute SCRIPT_TEMPLATE_htcondor
     [(''fluka_command'', fluka_command fluka_path custom_exe), (''input'', input)] =
   Inr (''#!/bin/env bash'' @ [CHR 0x0A, CHR 0x0A] @
        ''. /cvmfs/sft.cern.ch/lcg/views/setupViews.sh LCG_97python3 x86_64-centos7-gcc9-opt'' @
        [CHR 0x0A, CHR 0x0A] @
        fluka_command fluka_path custom_exe @ '' '' @ input @ [CHR 0x0A])"
  by (simp add: SCRIPT_TEMPLATE_htcondor_def)

subsection \<open>The submit description and the queue\<close>

text \<open>
  Claim C10. In the HTCondor script the queue name does not reach the submit
  description: two runs that differ in the queue argument only are the same run, event
  by event, so every description logged or submitted is the same; and the universe of
  every description is the constant \<^verbatim>\<open>vanilla\<close>.
\<close>

theorem submit_description_ignores_queue:
  "launch_jobs_htcondor env input_file job_number custom_exe queue1 mem ncpu disk time dry_run
       output_dir transfer_files output error log w =
   launch_jobs_htcondor env input_file job_number custom_exe queue2 mem ncpu disk time dry_run
       output_dir transfer_files output error log w \<and>
   map_of (generate_submit_description i new_input script_name mem ncpu disk time transfer_files
             output error log) ''universe'' = Some (PyStr ''vanilla'')"
proof -
  have "job_htcondor env input_file custom_exe queue1 mem ncpu disk time dry_run transfer_files
          output error log directory stripped_name =
        job_htcondor env input_file custom_exe queue2 mem ncpu disk time dry_run transfer_files
          output error log directory stripped_name" for directory stripped_name
    by (rule ext, rule ext) (simp add: job_htcondor_def)
  then show ?thesis
    by (simp add: launch_jobs_htcondor_def generate_submit_description_def)
qed

subsection \<open>The failure message of the LSF script\<close>



subsection \<open>The mutator\<close>

lemma proper_name_long: "2 < length c \<Longrightarrow> proper_name c"
  by (auto simp: proper_name_def)


lemma str_nat_chars: "c \<notin> set ''0123456789'' \<Longrightarrow> c \<notin> set (str_nat n)"
  using str_nat_digits[of n] by blast

lemma fmt_04d_chars:
  assumes "c \<notin> set ''-0123456789''"
  shows "c \<notin> set (fmt_04d i)"
proof -
  from assms have c: "c \<noteq> CHR ''-''" "c \<noteq> CHR ''0''" and "c \<notin> set ''0123456789''"
    by simp_all
  then have "c \<notin> set (str_nat n)" for n by (intro str_nat_chars)
  with c show ?thesis by (simp add: fmt_04d_def)
qed

lemma fmt_04d_no_slash: "CHR ''/'' \<notin> set (fmt_04d i)"
  by (rule fmt_04d_chars) simp



lemma and_then_cases:
  "and_then m k = (case m of Returned x w \<Rightarrow> k x w | Raised e w \<Rightarrow> Raised e w)"
  by (cases m) simp_all




















subsection \<open>What a run does to the outside\<close>

text \<open>The calls of the operating system leave the record of events alone.\<close>

lemma os_makedirs_out: "os_makedirs n w = r \<Longrightarrow> out (world_of r) = out w"
  by (auto simp: os_makedirs_def split: option.splits)

lemma os_chdir_out: "os_chdir n w = r \<Longrightarrow> out (world_of r) = out w"
  by (auto simp: os_chdir_def split: option.splits node.splits)

lemma os_system_cp_out:
  "os_system_cp src dst w = r \<Longrightarrow>
     returned r \<and> out (world_of r) = out w @ [OsSystem (''cp '' @ src @ '' '' @ dst)]"
  by (auto simp: os_system_cp_def Let_def split: option.splits node.splits)

lemma open_rplus_out: "open_rplus n w = r \<Longrightarrow> out (world_of r) = out w"
  by (auto simp: open_rplus_def split: option.splits node.splits)

lemma rewrite_lines_out: "rewrite_lines h d w = r \<Longrightarrow> out (world_of r) = out w"
  by (auto simp: rewrite_lines_def split: prod.splits)

lemma os_rename_out: "os_rename a b w = r \<Longrightarrow> out (world_of r) = out w"
  by (auto simp: os_rename_def split: option.splits node.splits)

lemma generate_input_out:
  "generate_input env input i w = r \<Longrightarrow>
     out (world_of r) = out w \<and>
     (\<forall>x w'. r = Returned x w' \<longrightarrow> x = input @ ''_'' @ fmt_04d i @ ''.inp'')"
  by (auto simp: generate_input_def random_randint_def and_then_cases Let_def
      split: outcome.splits
      dest!: open_rplus_out rewrite_lines_out os_rename_out)




lemma for_jobs_events:
  assumes step: "\<And>i w. \<exists>evs. out (world_of (body i w)) = out w @ evs \<and> filter q evs = [] \<and>
                    (returned (body i w) \<longrightarrow> filter p evs = g i)"
  shows "\<exists>evs. out (world_of (for_jobs body js w)) = out w @ evs \<and> filter q evs = [] \<and>
           (returned (for_jobs body js w) \<longrightarrow> filter p evs = concat (map g js))"
proof (induction js arbitrary: w)
  case Nil
  show ?case by simp
next
  case (Cons i js)
  from step[of i w] obtain e1 where e1: "out (world_of (body i w)) = out w @ e1"
    "filter q e1 = []" "returned (body i w) \<longrightarrow> filter p e1 = g i" by blast
  show ?case
  proof (cases "body i w")
    case (Raised e w1)
    with e1 show ?thesis by auto
  next
    case (Returned u w1)
    from Cons.IH[of w1] obtain e2 where e2: "out (world_of (for_jobs body js w1)) = out w1 @ e2"
      "filter q e2 = []"
      "returned (for_jobs body js w1) \<longrightarrow> filter p e2 = concat (map g js)" by blast
    from Returned e1 e2 show ?thesis
      by (intro exI[of _ "e1 @ e2"]) auto
  qed
qed

lemma and_then_assoc:
  "and_then (and_then m k) k' = and_then m (\<lambda>x w. and_then (k x w) k')"
  by (cases m) simp_all

lemma job_ts_prepare:
  "job_ts env input_file custom_exe dry_run directory stripped_name i w =
     and_then (prepare_job env input_file directory stripped_name i w) (\<lambda>new_input w.
       and_then (submit_ts env i dry_run (fluka_command_ts custom_exe new_input) w) (\<lambda>_ w.
         os_chdir ''../..'' w))"
  by (simp add: job_ts_def prepare_job_def Let_def and_then_assoc)

lemma job_htcondor_prepare:
  "job_htcondor env input_file custom_exe queue mem ncpu disk time dry_run transfer_files
       output error log directory stripped_name i w =
     and_then (prepare_job env input_file directory stripped_name i w) (\<lambda>new_input w.
       and_then (generate_sh_htcondor env new_input i (FLUKA_PATH env) custom_exe w) (\<lambda>script_name w.
         and_then
           (if dry_run
            then logging_info_dict ''Dry run: condor_submit ''
                   (generate_submit_description i new_input script_name mem ncpu disk time
                      transfer_files output error log) w
            else and_then (schedd_submit_cluster env
                   (generate_submit_description i new_input script_name mem ncpu disk time
                      transfer_files output error log) w) (\<lambda>cluster w.
                   logging_info (''Submitted job '' @ str_int cluster) w))
           (\<lambda>_ w. os_chdir ''../..'' w)))"
  by (simp add: job_htcondor_def prepare_job_def Let_def and_then_assoc)


lemma prepare_job_out:
  "\<exists>evs. out (world_of (prepare_job env input_file directory stripped_name i w)) = out w @ evs \<and>
     (evs = [] \<or>
      evs = [OsSystem (''cp '' @ input_file @ '' '' @ path_join directory (''job_'' @ fmt_04d i))]) \<and>
     (\<forall>x w'. prepare_job env input_file directory stripped_name i w = Returned x w' \<longrightarrow>
        evs = [OsSystem (''cp '' @ input_file @ '' '' @ path_join directory (''job_'' @ fmt_04d i))] \<and>
        x = stripped_name @ ''_'' @ fmt_04d i @ ''.inp'')"
proof -
  let ?jd = "path_join directory (''job_'' @ fmt_04d i)"
  let ?cp = "OsSystem (''cp '' @ input_file @ '' '' @ ?jd)"
  show ?thesis
  proof (cases "os_makedirs ?jd w")
    case (Raised e w1)
    with os_makedirs_out[OF Raised] show ?thesis
      by (simp add: prepare_job_def)
  next
    case r1: (Returned u1 w1)
    from os_makedirs_out[OF r1] have o1: "out w1 = out w" by simp
    obtain u2 w2 where r2: "os_system_cp input_file ?jd w1 = Returned u2 w2"
      using os_system_cp_out[OF refl, of input_file ?jd w1]
      by (cases "os_system_cp input_file ?jd w1") auto
    from os_system_cp_out[OF r2] o1 have o2: "out w2 = out w @ [?cp]" by simp
    show ?thesis
    proof (cases "os_chdir ?jd w2")
      case (Raised e w3)
      with os_chdir_out[OF Raised] r1 r2 o2 show ?thesis
        by (simp add: prepare_job_def)
    next
      case r3: (Returned u3 w3)
      from os_chdir_out[OF r3] o2 have o3: "out w3 = out w @ [?cp]" by simp
      have eq: "prepare_job env input_file directory stripped_name i w =
                generate_input env stripped_name i w3"
        using r1 r2 r3 by (simp add: prepare_job_def)
      from generate_input_out[OF refl, of env stripped_name i w3] o3 show ?thesis
        unfolding eq by simp
    qed
  qed
qed







subsection \<open>The working directory\<close>

lemma and_then_Returned:
  assumes "and_then m k = Returned y w'"
  obtains x w1 where "m = Returned x w1" and "k x w1 = Returned y w'"
  using assms by (cases m) auto

lemma os_makedirs_cwd: "os_makedirs n w = r \<Longrightarrow> cwd (world_of r) = cwd w"
  by (auto simp: os_makedirs_def split: option.splits)

lemma os_system_cp_cwd: "os_system_cp src dst w = r \<Longrightarrow> cwd (world_of r) = cwd w"
  by (auto simp: os_system_cp_def Let_def split: option.splits node.splits)

lemma open_rplus_cwd: "open_rplus n w = r \<Longrightarrow> cwd (world_of r) = cwd w"
  by (auto simp: open_rplus_def split: option.splits node.splits)

lemma rewrite_lines_cwd: "rewrite_lines h d w = r \<Longrightarrow> cwd (world_of r) = cwd w"
  by (auto simp: rewrite_lines_def split: prod.splits)

lemma os_rename_cwd: "os_rename a b w = r \<Longrightarrow> cwd (world_of r) = cwd w"
  by (auto simp: os_rename_def split: option.splits node.splits)

lemma write_file_cwd: "write_file env n t w = r \<Longrightarrow> cwd (world_of r) = cwd w"
  by (auto simp: write_file_def split: option.splits node.splits)

lemma os_chmod_cwd: "os_chmod n m w = r \<Longrightarrow> cwd (world_of r) = cwd w"
  by (auto simp: os_chmod_def split: option.splits node.splits)

lemma generate_input_cwd: "generate_input env input i w = r \<Longrightarrow> cwd (world_of r) = cwd w"
  by (auto simp: generate_input_def random_randint_def and_then_cases Let_def
      split: outcome.splits
      dest!: open_rplus_cwd rewrite_lines_cwd os_rename_cwd)

lemma generate_sh_htcondor_cwd:
  "generate_sh_htcondor env input i fp ce w = r \<Longrightarrow> cwd (world_of r) = cwd w"
  by (auto simp: generate_sh_htcondor_def and_then_cases Let_def
      split: sum.splits outcome.splits dest!: write_file_cwd os_chmod_cwd)

lemma submit_ts_cwd: "submit_ts env i dry_run c w = r \<Longrightarrow> returned r \<and> cwd (world_of r) = cwd w"
  by (auto simp: submit_ts_def logging_info_def subprocess_run_shell_def print_line_def)

lemma submit_htcondor_cwd:
  "(if dry_run then logging_info_dict m d w
    else and_then (schedd_submit_cluster env d w) (\<lambda>cluster w.
           logging_info (''Submitted job '' @ str_int cluster) w)) = r \<Longrightarrow>
   cwd (world_of r) = cwd w"
  by (auto simp: logging_info_dict_def logging_info_def schedd_submit_cluster_def
      split: sum.splits if_splits)

lemma os_chdir_cwd: "os_chdir n w = Returned u w' \<Longrightarrow> abspath (cwd w) n = Some (cwd w')"
  by (auto simp: os_chdir_def split: option.splits node.splits)

lemma abspath_up_up: "abspath wd ''../..'' = Some (butlast (butlast wd))"
  by (simp add: abspath_def)

lemma butlast_twice: "butlast (butlast (wd @ [a, b])) = wd"
  by (simp add: butlast_append)

lemma components_plain: "CHR ''/'' \<notin> set s \<Longrightarrow> components s = [s]"
  by (induction s) auto

lemma components_slash:
  "CHR ''/'' \<notin> set d \<Longrightarrow> components (d @ CHR ''/'' # j) = d # components j"
  by (induction d) auto

lemma abspath_job_dir:
  assumes "plain_name directory"
  shows "abspath wd (path_join directory (''job_'' @ fmt_04d i)) =
           Some (wd @ [directory, ''job_'' @ fmt_04d i])"
proof -
  from assms have d: "directory \<noteq> []" "CHR ''/'' \<notin> set directory" "proper_name directory"
    by (auto simp: plain_name_def proper_name_def)
  then have l: "last directory \<noteq> CHR ''/''" and h: "hd directory \<noteq> CHR ''/''"
    by (metis last_in_set, metis hd_in_set)
  have j: "components (''job_'' @ fmt_04d i) = [''job_'' @ fmt_04d i]"
    by (rule components_plain) (simp add: fmt_04d_no_slash)
  have pj: "proper_name (''job_'' @ fmt_04d i)" by (rule proper_name_long) simp
  have "path_join directory (''job_'' @ fmt_04d i) = directory @ CHR ''/'' # ''job_'' @ fmt_04d i"
    using d l by (simp add: path_join_def)
  moreover have "components (directory @ CHR ''/'' # ''job_'' @ fmt_04d i) =
                 [directory, ''job_'' @ fmt_04d i]"
    using components_slash[OF d(2), of "''job_'' @ fmt_04d i"] j by simp
  ultimately show ?thesis
    using d h pj by (simp add: abspath_def proper_name_def)
qed

lemma prepare_job_cwd:
  assumes "prepare_job env input_file directory stripped_name i w = Returned x w'"
  shows "abspath (cwd w) (path_join directory (''job_'' @ fmt_04d i)) = Some (cwd w')"
proof -
  let ?jd = "path_join directory (''job_'' @ fmt_04d i)"
  from assms obtain u1 w1 u2 w2 u3 w3 where 1: "os_makedirs ?jd w = Returned u1 w1"
    and 2: "os_system_cp input_file ?jd w1 = Returned u2 w2"
    and 3: "os_chdir ?jd w2 = Returned u3 w3"
    and 4: "generate_input env stripped_name i w3 = Returned x w'"
    unfolding prepare_job_def Let_def by (elim and_then_Returned)
  from os_makedirs_cwd[OF 1] os_system_cp_cwd[OF 2] have "cwd w2 = cwd w" by simp
  moreover from generate_input_cwd[OF 4] have "cwd w' = cwd w3" by simp
  ultimately show ?thesis using os_chdir_cwd[OF 3] by simp
qed

text \<open>
  Claim C8, as amended. In the HTCondor and in the task-spooler script, when the output
  root is a name of one component (the default root is one, and so is an override
  without a slash) and the steps of an iteration all succeed, dry run or not, the
  working directory after the iteration is the one before it.
\<close>

theorem working_directory_restored:
  assumes "plain_name directory"
  shows "(returned (job_htcondor env input_file custom_exe queue mem ncpu disk time dry_run
                      transfer_files output error log directory stripped_name i w) \<longrightarrow>
            cwd (world_of (job_htcondor env input_file custom_exe queue mem ncpu disk time dry_run
                      transfer_files output error log directory stripped_name i w)) = cwd w) \<and>
         (returned (job_ts env input_file custom_exe dry_run directory stripped_name i w) \<longrightarrow>
            cwd (world_of (job_ts env input_file custom_exe dry_run directory stripped_name i w))
              = cwd w)"
proof (intro conjI impI)
  let ?h = "job_htcondor env input_file custom_exe queue mem ncpu disk time dry_run
                      transfer_files output error log directory stripped_name i w"
  assume "returned ?h"
  then obtain u w' where h: "?h = Returned u w'" by (cases ?h) auto
  from h[unfolded job_htcondor_prepare]
  obtain x w1 s w2 v w3 where p: "prepare_job env input_file directory stripped_name i w = Returned x w1"
    and g: "generate_sh_htcondor env x i (FLUKA_PATH env) custom_exe w1 = Returned s w2"
    and sub: "(if dry_run
            then logging_info_dict ''Dry run: condor_submit ''
                   (generate_submit_description i x s mem ncpu disk time
                      transfer_files output error log) w2
            else and_then (schedd_submit_cluster env
                   (generate_submit_description i x s mem ncpu disk time
                      transfer_files output error log) w2) (\<lambda>cluster w.
                   logging_info (''Submitted job '' @ str_int cluster) w)) = Returned v w3"
    and c: "os_chdir ''../..'' w3 = Returned u w'"
    by (elim and_then_Returned)
  from prepare_job_cwd[OF p] abspath_job_dir[OF assms]
  have "cwd w1 = cwd w @ [directory, ''job_'' @ fmt_04d i]" by simp
  moreover from generate_sh_htcondor_cwd[OF g] submit_htcondor_cwd[OF sub]
  have "cwd w3 = cwd w1" by simp
  ultimately have "cwd w' = cwd w" using os_chdir_cwd[OF c] by (simp add: abspath_up_up butlast_twice)
  with h show "cwd (world_of ?h) = cwd w" by simp
next
  let ?t = "job_ts env input_file custom_exe dry_run directory stripped_name i w"
  assume "returned ?t"
  then obtain u w' where t: "?t = Returned u w'" by (cases ?t) auto
  from t[unfolded job_ts_prepare]
  obtain x w1 v w2 where p: "prepare_job env input_file directory stripped_name i w = Returned x w1"
    and sub: "submit_ts env i dry_run (fluka_command_ts custom_exe x) w1 = Returned v w2"
    and c: "os_chdir ''../..'' w2 = Returned u w'"
    by (elim and_then_Returned)
  from prepare_job_cwd[OF p] abspath_job_dir[OF assms]
  have "cwd w1 = cwd w @ [directory, ''job_'' @ fmt_04d i]" by simp
  moreover from submit_ts_cwd[OF sub] have "cwd w2 = cwd w1" by simp
  ultimately have "cwd w' = cwd w" using os_chdir_cwd[OF c] by (simp add: abspath_up_up butlast_twice)
  with t show "cwd (world_of ?t) = cwd w" by simp
qed

text \<open>The amended claim on the sample environment, with a failing submission command.\<close>

theorem working_directory_restored_witness:
  "plain_name ''run'' \<and>
   returned (job_htcondor example_env ''run.inp'' ''None'' ''vanilla'' ''1500'' 1 100000 86400 True
      ''yes'' ''job.out'' ''job.err'' ''job.log'' ''run'' ''run'' 1
      (world_of (os_makedirs ''run'' example_world))) \<and>
   cwd (world_of (job_htcondor example_env ''run.inp'' ''None'' ''vanilla'' ''1500'' 1 100000 86400
      True ''yes'' ''job.out'' ''job.err'' ''job.log'' ''run'' ''run'' 1
      (world_of (os_makedirs ''run'' example_world)))) = [''home'', ''user''] \<and>
   returned (job_ts example_env ''run.inp'' ''None'' False ''run'' ''run'' 1
      (world_of (os_makedirs ''run'' example_world))) \<and>
   cwd (world_of (job_ts example_env ''run.inp'' ''None'' False ''run'' ''run'' 1
      (world_of (os_makedirs ''run'' example_world)))) = [''home'', ''user'']"
proof -
  let ?w = "world_of (os_makedirs ''run'' example_world)"
  have p: "plain_name ''run''" by code_simp
  have c: "cwd ?w = [''home'', ''user'']" by code_simp
  have r1: "returned (job_htcondor example_env ''run.inp'' ''None'' ''vanilla'' ''1500'' 1 100000
      86400 True ''yes'' ''job.out'' ''job.err'' ''job.log'' ''run'' ''run'' 1 ?w)"
    by code_simp
  have r2: "returned (job_ts example_env ''run.inp'' ''None'' False ''run'' ''run'' 1 ?w)"
    by code_simp
  from working_directory_restored[OF p, of example_env "''run.inp''" "''None''" "''vanilla''"
      "''1500''" 1 100000 86400 True "''yes''" "''job.out''" "''job.err''" "''job.log''" "''run''"
      1 ?w]
    working_directory_restored[OF p, of example_env "''run.inp''" "''None''" "''vanilla''"
      "''1500''" 1 100000 86400 False "''yes''" "''job.out''" "''job.err''" "''job.log''" "''run''"
      1 ?w]
    p c r1 r2
  show ?thesis by simp
qed

text \<open>
  Claim C8 as stated covers every path and every override. The scripts have no
  \<^verbatim>\<open>try\<close>: when the template is missing, \<^verbatim>\<open>generate_input\<close> raises after the change
  into the job directory and the process stays there. And \<^verbatim>\<open>os.chdir("../..")\<close> goes up
  two levels whatever the depth of the root: with the override \<^verbatim>\<open>results/run1\<close> an
  iteration that succeeds ends in \<^verbatim>\<open>results\<close>.
\<close>

theorem working_directory_not_restored:
  "cwd (world_of (os_makedirs ''absent'' example_world)) = [''home'', ''user''] \<and>
   \<not> returned (job_htcondor example_env ''absent.inp'' ''None'' ''vanilla'' ''1500'' 1 100000 86400
      True ''yes'' ''job.out'' ''job.err'' ''job.log'' ''absent'' ''absent'' 1
      (world_of (os_makedirs ''absent'' example_world))) \<and>
   cwd (world_of (job_htcondor example_env ''absent.inp'' ''None'' ''vanilla'' ''1500'' 1 100000
      86400 True ''yes'' ''job.out'' ''job.err'' ''job.log'' ''absent'' ''absent'' 1
      (world_of (os_makedirs ''absent'' example_world)))) =
     [''home'', ''user'', ''absent'', ''job_0001''] \<and>
   cwd (world_of (os_makedirs ''results/run1'' example_world)) = [''home'', ''user''] \<and>
   returned (job_htcondor example_env ''/home/user/run.inp'' ''None'' ''vanilla'' ''1500'' 1 100000
      86400 True ''yes'' ''job.out'' ''job.err'' ''job.log'' ''results/run1'' ''run'' 1
      (world_of (os_makedirs ''results/run1'' example_world))) \<and>
   cwd (world_of (job_htcondor example_env ''/home/user/run.inp'' ''None'' ''vanilla'' ''1500'' 1
      100000 86400 True ''yes'' ''job.out'' ''job.err'' ''job.log'' ''results/run1'' ''run'' 1
      (world_of (os_makedirs ''results/run1'' example_world)))) =
     [''home'', ''user'', ''results'']"
  by code_simp

subsection \<open>Failures and the rest of the batch\<close>

lemma same_course_refl: "same_course r r"
  by (cases r) simp_all

lemma same_course_and_then:
  assumes "same_course m m'"
    and "\<And>x a b. core a = core b \<Longrightarrow> same_course (k x a) (k' x b)"
  shows "same_course (and_then m k) (and_then m' k')"
  using assms by (cases m; cases m') auto

lemma os_makedirs_course: "core a = core b \<Longrightarrow> same_course (os_makedirs n a) (os_makedirs n b)"
  by (auto simp: core_def os_makedirs_def split: option.splits)

lemma os_system_cp_course:
  "core a = core b \<Longrightarrow> same_course (os_system_cp s d a) (os_system_cp s d b)"
  by (auto simp: core_def os_system_cp_def Let_def split: option.splits node.splits)

lemma os_chdir_course: "core a = core b \<Longrightarrow> same_course (os_chdir n a) (os_chdir n b)"
  by (auto simp: core_def os_chdir_def split: option.splits node.splits)

lemma open_rplus_course: "core a = core b \<Longrightarrow> same_course (open_rplus n a) (open_rplus n b)"
  by (auto simp: core_def open_rplus_def split: option.splits node.splits)

lemma rewrite_lines_course:
  "core a = core b \<Longrightarrow> same_course (rewrite_lines h d a) (rewrite_lines h d b)"
  by (auto simp: core_def rewrite_lines_def split: prod.splits)

lemma os_rename_course:
  "core a = core b \<Longrightarrow> same_course (os_rename s d a) (os_rename s d b)"
  by (auto simp: core_def os_rename_def split: option.splits node.splits)

lemma generate_input_course:
  assumes "core a = core b" and "entropy env' = entropy env"
  shows "same_course (generate_input env input i a) (generate_input env' input i b)"
proof -
  from assms have d: "draws a = draws b" by (simp add: core_def)
  have c: "core (a\<lparr>draws := Suc (draws a)\<rparr>) = core (b\<lparr>draws := Suc (draws b)\<rparr>)"
    using assms(1) by (simp add: core_def)
  show ?thesis
    unfolding generate_input_def random_randint_def prod.case Let_def assms(2) d
    by (intro same_course_and_then open_rplus_course rewrite_lines_course os_rename_course
          c[unfolded d]) simp_all
qed

lemma prepare_job_course:
  assumes "core a = core b" and "entropy env' = entropy env"
  shows "same_course (prepare_job env input_file directory stripped_name i a)
           (prepare_job env' input_file directory stripped_name i b)"
  unfolding prepare_job_def Let_def
  by (intro same_course_and_then os_makedirs_course os_system_cp_course os_chdir_course
        generate_input_course assms)

lemma submit_ts_course:
  "core a = core b \<Longrightarrow> same_course (submit_ts env i dry_run c a) (submit_ts env' i dry_run c b)"
  by (simp add: submit_ts_def logging_info_def subprocess_run_shell_def print_line_def core_def)

lemma job_ts_course:
  assumes "core a = core b" and "entropy env' = entropy env"
  shows "same_course (job_ts env input_file custom_exe dry_run directory stripped_name i a)
           (job_ts env' input_file custom_exe dry_run directory stripped_name i b)"
  unfolding job_ts_prepare
  by (intro same_course_and_then prepare_job_course submit_ts_course os_chdir_course assms)

lemma for_jobs_course:
  assumes "\<And>i a b. core a = core b \<Longrightarrow> same_course (body i a) (body' i b)"
  shows "core a = core b \<Longrightarrow> same_course (for_jobs body js a) (for_jobs body' js b)"
proof (induction js arbitrary: a b)
  case Nil
  then show ?case by simp
next
  case (Cons i js)
  show ?case
    unfolding for_jobs.simps
    by (intro same_course_and_then assms Cons.IH Cons.prems)
qed

lemma job_ts_events:
  "\<exists>evs. out (world_of (job_ts env input_file custom_exe False directory stripped_name i w)) = out w @ evs \<and>
     filter (\<lambda>e. False) evs = [] \<and>
     (returned (job_ts env input_file custom_exe False directory stripped_name i w) \<longrightarrow>
        filter is_report evs =
          [SubprocessRun (''ts '' @ fluka_command_ts custom_exe
                            (stripped_name @ ''_'' @ fmt_04d i @ ''.inp'')),
           Print
             (if returncode (subprocess_run env (''ts '' @ fluka_command_ts custom_exe
                   (stripped_name @ ''_'' @ fmt_04d i @ ''.inp''))) = 0
              then ''Job '' @ str_int i @ '' submitted: '' @
                   strip (stdout (subprocess_run env (''ts '' @ fluka_command_ts custom_exe
                     (stripped_name @ ''_'' @ fmt_04d i @ ''.inp''))))
              else ''Job '' @ str_int i @ '' submission failed: '' @
                   strip (stderr (subprocess_run env (''ts '' @ fluka_command_ts custom_exe
                     (stripped_name @ ''_'' @ fmt_04d i @ ''.inp'')))))])"
proof -
  let ?p = "prepare_job env input_file directory stripped_name i w"
  let ?c = "''ts '' @ fluka_command_ts custom_exe (stripped_name @ ''_'' @ fmt_04d i @ ''.inp'')"
  let ?line = "if returncode (subprocess_run env ?c) = 0
              then ''Job '' @ str_int i @ '' submitted: '' @ strip (stdout (subprocess_run env ?c))
              else ''Job '' @ str_int i @ '' submission failed: '' @
                   strip (stderr (subprocess_run env ?c))"
  from prepare_job_out[of env input_file directory stripped_name i w]
  obtain e1 where e1: "out (world_of ?p) = out w @ e1" "filter is_report e1 = []"
    and ret: "\<And>x w'. ?p = Returned x w' \<Longrightarrow> x = stripped_name @ ''_'' @ fmt_04d i @ ''.inp''"
    by (auto simp: is_report_def)
  show ?thesis
  proof (cases ?p)
    case (Raised e w1)
    with e1 show ?thesis by (simp add: job_ts_prepare)
  next
    case (Returned x w1)
    let ?w2 = "w1\<lparr>out := out w1 @ [SubprocessRun ?c, Print ?line]\<rparr>"
    have eq: "job_ts env input_file custom_exe False directory stripped_name i w =
              os_chdir ''../..'' ?w2"
      using Returned ret[OF Returned]
      by (simp add: job_ts_prepare submit_ts_def subprocess_run_shell_def print_line_def)
    from os_chdir_out[OF refl, of "''../..''" ?w2] e1 Returned
    have "out (world_of (os_chdir ''../..'' ?w2)) = out w @ e1 @ [SubprocessRun ?c, Print ?line]"
      by simp
    with e1 show ?thesis unfolding eq
      by (intro exI[of _ "e1 @ [SubprocessRun ?c, Print ?line]"]) (simp add: is_report_def)
  qed
qed

text \<open>
  Claim C2, as amended. In the task-spooler script the exit status of a submission
  command never ends the batch. The course of a run does not depend on what the
  submission commands answer: replace the answers by any others (by successes, say) and
  the run returns or raises as before, with the same files. And in a run that returns,
  the command of every job \<open>1\<close> to \<open>N\<close> has been run, each followed by its report line;
  for a job whose command exits with a non-zero status that line is
  \<^verbatim>\<open>Job i submission failed:\<close> with the job's index and the stripped standard error.
\<close>

theorem ts_submission_failure_does_not_stop_the_batch:
  "same_course (launch_jobs_ts env input_file job_number custom_exe False output_dir w)
     (launch_jobs_ts (env\<lparr>subprocess_run := answers\<rparr>) input_file job_number custom_exe False
        output_dir w) \<and>
   (\<exists>evs. out (world_of (launch_jobs_ts env input_file job_number custom_exe False output_dir w))
            = out w @ evs \<and>
      (returned (launch_jobs_ts env input_file job_number custom_exe False output_dir w) \<longrightarrow>
         filter is_report evs =
           concat (map (\<lambda>i.
             [SubprocessRun (''ts '' @ fluka_command_ts custom_exe
                (fst (splitext (basename input_file)) @ ''_'' @ fmt_04d i @ ''.inp'')),
              Print
                (if returncode (subprocess_run env (''ts '' @ fluka_command_ts custom_exe
                      (fst (splitext (basename input_file)) @ ''_'' @ fmt_04d i @ ''.inp''))) = 0
                 then ''Job '' @ str_int i @ '' submitted: '' @
                      strip (stdout (subprocess_run env (''ts '' @ fluka_command_ts custom_exe
                        (fst (splitext (basename input_file)) @ ''_'' @ fmt_04d i @ ''.inp''))))
                 else ''Job '' @ str_int i @ '' submission failed: '' @
                      strip (stderr (subprocess_run env (''ts '' @ fluka_command_ts custom_exe
                        (fst (splitext (basename input_file)) @ ''_'' @ fmt_04d i @ ''.inp'')))))])
             [1..job_number])))"
proof (intro conjI)
  let ?sn = "fst (splitext (basename input_file))"
  let ?base = "case output_dir of None \<Rightarrow> ?sn | Some d \<Rightarrow> d"
  let ?dir = "find_new_directory_name w ?base ?base 1"
  let ?env' = "env\<lparr>subprocess_run := answers\<rparr>"
  have ent: "entropy ?env' = entropy env" by simp
  show "same_course (launch_jobs_ts env input_file job_number custom_exe False output_dir w)
     (launch_jobs_ts ?env' input_file job_number custom_exe False output_dir w)"
    unfolding launch_jobs_ts_def Let_def
    by (intro same_course_and_then same_course_refl for_jobs_course job_ts_course ent)
next
  let ?sn = "fst (splitext (basename input_file))"
  let ?base = "case output_dir of None \<Rightarrow> ?sn | Some d \<Rightarrow> d"
  let ?dir = "find_new_directory_name w ?base ?base 1"
  let ?m = "os_makedirs ?dir w"
  let ?run = "launch_jobs_ts env input_file job_number custom_exe False output_dir w"
  let ?body = "job_ts env input_file custom_exe False ?dir ?sn"
  have m: "out (world_of ?m) = out w" by (rule os_makedirs_out[OF refl])
  show "\<exists>evs. out (world_of ?run) = out w @ evs \<and>
      (returned ?run \<longrightarrow>
         filter is_report evs =
           concat (map (\<lambda>i.
             [SubprocessRun (''ts '' @ fluka_command_ts custom_exe
                (?sn @ ''_'' @ fmt_04d i @ ''.inp'')),
              Print
                (if returncode (subprocess_run env (''ts '' @ fluka_command_ts custom_exe
                      (?sn @ ''_'' @ fmt_04d i @ ''.inp''))) = 0
                 then ''Job '' @ str_int i @ '' submitted: '' @
                      strip (stdout (subprocess_run env (''ts '' @ fluka_command_ts custom_exe
                        (?sn @ ''_'' @ fmt_04d i @ ''.inp''))))
                 else ''Job '' @ str_int i @ '' submission failed: '' @
                      strip (stderr (subprocess_run env (''ts '' @ fluka_command_ts custom_exe
                        (?sn @ ''_'' @ fmt_04d i @ ''.inp'')))))])
             [1..job_number]))"
  proof (cases ?m)
    case (Raised e w1)
    with m show ?thesis by (simp add: launch_jobs_ts_def Let_def)
  next
    case (Returned u w1)
    with m have o1: "out w1 = out w" by simp
    have eq: "?run = for_jobs ?body [1..job_number] w1"
      using Returned by (simp add: launch_jobs_ts_def Let_def)
    from for_jobs_events[of ?body "\<lambda>e. False" is_report _ "[1..job_number]" w1,
          OF job_ts_events]
    show ?thesis unfolding eq o1 by blast
  qed
qed

text \<open>On the sample environment both submissions fail, and both jobs are processed.\<close>

theorem ts_submission_failure_does_not_stop_the_batch_witness:
  "returned (launch_jobs_ts example_env ''run.inp'' 2 ''None'' False None example_world) \<and>
   same_course (launch_jobs_ts example_env ''run.inp'' 2 ''None'' False None example_world)
     (launch_jobs_ts
        (example_env\<lparr>subprocess_run := (\<lambda>c. \<lparr>returncode = 0, stdout = ''7'', stderr = []\<rparr>)\<rparr>)
        ''run.inp'' 2 ''None'' False None example_world) \<and>
   (\<exists>evs. out (world_of (launch_jobs_ts example_env ''run.inp'' 2 ''None'' False None
              example_world)) = out example_world @ evs \<and>
      filter is_report evs =
        [SubprocessRun ''ts rfluka -M 1 run_0001.inp'',
         Print ''Job 1 submission failed: queue closed'',
         SubprocessRun ''ts rfluka -M 1 run_0002.inp'',
         Print ''Job 2 submission failed: queue closed''])"
proof -
  have r: "returned (launch_jobs_ts example_env ''run.inp'' 2 ''None'' False None example_world)"
    by code_simp
  have l: "concat (map (\<lambda>i.
             [SubprocessRun (''ts '' @ fluka_command_ts ''None''
                (fst (splitext (basename ''run.inp'')) @ ''_'' @ fmt_04d i @ ''.inp'')),
              Print
                (if returncode (subprocess_run example_env (''ts '' @ fluka_command_ts ''None''
                      (fst (splitext (basename ''run.inp'')) @ ''_'' @ fmt_04d i @ ''.inp''))) = 0
                 then ''Job '' @ str_int i @ '' submitted: '' @
                      strip (stdout (subprocess_run example_env (''ts '' @ fluka_command_ts ''None''
                        (fst (splitext (basename ''run.inp'')) @ ''_'' @ fmt_04d i @ ''.inp''))))
                 else ''Job '' @ str_int i @ '' submission failed: '' @
                      strip (stderr (subprocess_run example_env (''ts '' @ fluka_command_ts ''None''
                        (fst (splitext (basename ''run.inp'')) @ ''_'' @ fmt_04d i @ ''.inp'')))))])
             [1..2]) =
        [SubprocessRun ''ts rfluka -M 1 run_0001.inp'',
         Print ''Job 1 submission failed: queue closed'',
         SubprocessRun ''ts rfluka -M 1 run_0002.inp'',
         Print ''Job 2 submission failed: queue closed'']"
    by code_simp
  from ts_submission_failure_does_not_stop_the_batch[of example_env "''run.inp''" 2 "''None''"
      None example_world "\<lambda>c. \<lparr>returncode = 0, stdout = ''7'', stderr = []\<rparr>"] r
  show ?thesis unfolding l by blast
qed

text \<open>
  Claim C2 as stated also covers a failure of the seed mutation and any failure of a
  submission. The scripts catch no exception. With a template that does not exist,
  \<^verbatim>\<open>generate_input\<close> raises for job 1: the run ends there, nothing about the failure
  has been logged or printed, and the directory of job 2 has not been made. The same
  happens in the HTCondor script when \<^verbatim>\<open>schedd.submit\<close> raises.
\<close>

theorem raised_failure_stops_the_batch:
  "\<not> returned (launch_jobs_ts example_env ''absent.inp'' 2 ''None'' False None example_world) \<and>
   out (world_of (launch_jobs_ts example_env ''absent.inp'' 2 ''None'' False None example_world)) =
     [OsSystem ''cp absent.inp absent/job_0001''] \<and>
   stat (world_of (launch_jobs_ts example_env ''absent.inp'' 2 ''None'' False None example_world))
     ''/home/user/absent/job_0001'' = Some Dir \<and>
   stat (world_of (launch_jobs_ts example_env ''absent.inp'' 2 ''None'' False None example_world))
     ''/home/user/absent/job_0002'' = None \<and>
   \<not> returned (launch_jobs_htcondor (example_env\<lparr>schedd_submit := (\<lambda>d. Inl ''no schedd'')\<rparr>)
      ''run.inp'' 2 ''None'' ''vanilla'' ''1500'' 1 100000 86400 False None ''yes'' ''job.out''
      ''job.err'' ''job.log'' example_world) \<and>
   filter is_log (out (world_of (launch_jobs_htcondor
      (example_env\<lparr>schedd_submit := (\<lambda>d. Inl ''no schedd'')\<rparr>)
      ''run.inp'' 2 ''None'' ''vanilla'' ''1500'' 1 100000 86400 False None ''yes'' ''job.out''
      ''job.err'' ''job.log'' example_world))) = [] \<and>
   stat (world_of (launch_jobs_htcondor (example_env\<lparr>schedd_submit := (\<lambda>d. Inl ''no schedd'')\<rparr>)
      ''run.inp'' 2 ''None'' ''vanilla'' ''1500'' 1 100000 86400 False None ''yes'' ''job.out''
      ''job.err'' ''job.log'' example_world)) ''/home/user/run/job_0002'' = None"
  by code_simp

subsection \<open>The output root and the job directories\<close>

text \<open>
  The name the \<^verbatim>\<open>while\<close> loop ends with does not exist, and it is the first such name
  of the sequence: either the name the loop started with, or a candidate \<open>base_k\<close>
  such that the starting name and all the candidates from the counter up to \<open>k\<close>
  exist.
\<close>

lemma find_new_directory_name_first_free:
  "\<not> path_exists w (find_new_directory_name w base name counter) \<and>
   (find_new_directory_name w base name counter = name \<or>
    (\<exists>k \<ge> counter. find_new_directory_name w base name counter = base @ ''_'' @ str_int k \<and>
        path_exists w name \<and>
        (\<forall>j. counter \<le> j \<and> j < k \<longrightarrow> path_exists w (base @ ''_'' @ str_int j))))"
proof (induction w base name counter rule: find_new_directory_name.induct)
  case (1 w base name counter)
  show ?case
  proof (cases "path_exists w name")
    case False
    then show ?thesis by (subst (1 2) find_new_directory_name.simps) simp
  next
    case True
    let ?r = "find_new_directory_name w base (base @ ''_'' @ str_int counter) (counter + 1)"
    have eq: "find_new_directory_name w base name counter = ?r"
      using True by (subst find_new_directory_name.simps) simp
    from "1.IH"[OF True] have nex: "\<not> path_exists w ?r"
      and alt: "?r = base @ ''_'' @ str_int counter \<or>
        (\<exists>k \<ge> counter + 1. ?r = base @ ''_'' @ str_int k \<and>
           path_exists w (base @ ''_'' @ str_int counter) \<and>
           (\<forall>j. counter + 1 \<le> j \<and> j < k \<longrightarrow> path_exists w (base @ ''_'' @ str_int j)))"
      by blast+
    from alt show ?thesis
    proof
      assume "?r = base @ ''_'' @ str_int counter"
      with nex True show ?thesis unfolding eq by (intro conjI disjI2 exI[of _ counter]) auto
    next
      assume "\<exists>k \<ge> counter + 1. ?r = base @ ''_'' @ str_int k \<and>
           path_exists w (base @ ''_'' @ str_int counter) \<and>
           (\<forall>j. counter + 1 \<le> j \<and> j < k \<longrightarrow> path_exists w (base @ ''_'' @ str_int j))"
      then obtain k where k: "counter + 1 \<le> k" "?r = base @ ''_'' @ str_int k"
        "path_exists w (base @ ''_'' @ str_int counter)"
        "\<forall>j. counter + 1 \<le> j \<and> j < k \<longrightarrow> path_exists w (base @ ''_'' @ str_int j)" by blast
      have "\<forall>j. counter \<le> j \<and> j < k \<longrightarrow> path_exists w (base @ ''_'' @ str_int j)"
      proof (intro allI impI)
        fix j assume "counter \<le> j \<and> j < k"
        then have "j = counter \<or> (counter + 1 \<le> j \<and> j < k)" by arith
        with k(3,4) show "path_exists w (base @ ''_'' @ str_int j)" by blast
      qed
      with k nex True show ?thesis unfolding eq
        by (intro conjI disjI2 exI[of _ k]) auto
    qed
  qed
qed

text \<open>
  Claim C3 asks, for every preferred root name, for \<open>N\<close> job directories inside the
  root. The loop makes \<^verbatim>\<open>os.path.join(directory, job_name)\<close> relative to the working
  directory, and goes back with \<^verbatim>\<open>os.chdir("../..")\<close>. With the root \<^verbatim>\<open>results/run1\<close>
  and the template given by an absolute name, a dry run for two jobs returns; the first
  job directory is in the root, the second is not: it has been made in
  \<^verbatim>\<open>results/results/run1\<close>, and the process ends up in \<^verbatim>\<open>results/results\<close>.
\<close>

theorem nested_root_scatters_job_directories:
  "returned (launch_jobs_htcondor example_env ''/home/user/run.inp'' 2 ''None'' ''vanilla''
      ''1500'' 1 100000 86400 True (Some ''results/run1'') ''yes'' ''job.out'' ''job.err''
      ''job.log'' example_world) \<and>
   stat (world_of (launch_jobs_htcondor example_env ''/home/user/run.inp'' 2 ''None'' ''vanilla''
      ''1500'' 1 100000 86400 True (Some ''results/run1'') ''yes'' ''job.out'' ''job.err''
      ''job.log'' example_world)) ''/home/user/results/run1/job_0001'' = Some Dir \<and>
   stat (world_of (launch_jobs_htcondor example_env ''/home/user/run.inp'' 2 ''None'' ''vanilla''
      ''1500'' 1 100000 86400 True (Some ''results/run1'') ''yes'' ''job.out'' ''job.err''
      ''job.log'' example_world)) ''/home/user/results/run1/job_0002'' = None \<and>
   stat (world_of (launch_jobs_htcondor example_env ''/home/user/run.inp'' 2 ''None'' ''vanilla''
      ''1500'' 1 100000 86400 True (Some ''results/run1'') ''yes'' ''job.out'' ''job.err''
      ''job.log'' example_world)) ''/home/user/results/results/run1/job_0002'' = Some Dir \<and>
   cwd (world_of (launch_jobs_htcondor example_env ''/home/user/run.inp'' 2 ''None'' ''vanilla''
      ''1500'' 1 100000 86400 True (Some ''results/run1'') ''yes'' ''job.out'' ''job.err''
      ''job.log'' example_world)) = [''home'', ''user'', ''results'', ''results'']"
  by code_simp

end
